theory Spec2Isabelle
  imports Complex_Main "HOL-Library.Word" "HOL-Library.FSet" "HOL-Library.AList"
begin

unbundle bit_operations_syntax

section \<open>Hashing utilities (app/utils/hashing.py)\<close>

subsection \<open>Python's \<open>int(s, base)\<close> on strings\<close>

text \<open>
  \<open>is_valid_image_id\<close> decides by whether the built-in \<open>int(image_id, 16)\<close> raises
  \<open>ValueError\<close>. The built-in is modelled after CPython's \<open>PyLong_FromUnicodeObject\<close> and
  \<open>PyLong_FromString\<close>. A \<open>string\<close> here is a list of 8-bit characters, read as the code
  points 0..255 of a Python \<open>str\<close>.

  Before parsing, CPython rewrites a string that is not pure ASCII: a Unicode white-space
  character becomes a blank, a Unicode decimal digit its ASCII digit, and the string is cut
  after the first other character at or above 127, which is replaced by \<open>?\<close>. Among the
  code points 128..255 only U+0085 and U+00A0 are white space and none is a decimal digit.
\<close>

datatype py_error = ValueError | AssertionError | ImportError | IOError | AttributeError

definition py_isspace :: "char \<Rightarrow> bool" where
  "py_isspace c = (c = CHR 0x09 \<or> c = CHR 0x0A \<or> c = CHR 0x0B \<or> c = CHR 0x0C
                   \<or> c = CHR 0x0D \<or> c = CHR 0x20)"

definition py_unicode_isspace_high :: "char \<Rightarrow> bool" where
  "py_unicode_isspace_high c = (c = CHR 0x85 \<or> c = CHR 0xA0)"

fun transform_decimal_and_space :: "string \<Rightarrow> string" where
  "transform_decimal_and_space [] = []"
| "transform_decimal_and_space (c # cs) =
     (if of_char c < (127::nat) then c # transform_decimal_and_space cs
      else if py_unicode_isspace_high c then CHR '' '' # transform_decimal_and_space cs
      else [CHR ''?''])"

definition to_ascii :: "string \<Rightarrow> string" where
  "to_ascii s = (if \<forall>c \<in> set s. of_char c < (128::nat) then s
                 else transform_decimal_and_space s)"

text \<open>The table \<open>_PyLong_DigitValue\<close>: 37 for a character that is no digit in any base.\<close>

definition digit_value :: "char \<Rightarrow> nat" where
  "digit_value c =
     (let n = (of_char c :: nat) in
      if 48 \<le> n \<and> n \<le> 57 then n - 48
      else if 97 \<le> n \<and> n \<le> 122 then n - 87
      else if 65 \<le> n \<and> n \<le> 90 then n - 55
      else 37)"

text \<open>
  The digit loop of \<open>long_from_binary_base\<close> (and of its sibling for the other bases):
  digits and single underscores are consumed; two underscores in a row, or an underscore
  as the last consumed character, are a syntax error. \<open>prev\<close> is the character consumed
  before, initially NUL. The result is the value and the unconsumed rest.
\<close>

fun scan_digits :: "nat \<Rightarrow> char \<Rightarrow> int \<Rightarrow> string \<Rightarrow> (int \<times> string) option" where
  "scan_digits base prev acc [] = (if prev = CHR ''_'' then None else Some (acc, []))"
| "scan_digits base prev acc (c # cs) =
     (if c = CHR ''_'' then
        (if prev = CHR ''_'' then None else scan_digits base c acc cs)
      else if digit_value c < base then scan_digits base c (acc * int base + int (digit_value c)) cs
      else if prev = CHR ''_'' then None
      else Some (acc, c # cs))"

definition strip_sign :: "string \<Rightarrow> int \<times> string" where
  "strip_sign s =
     (case s of
        c # cs \<Rightarrow> if c = CHR ''+'' then (1, cs) else if c = CHR ''-'' then (-1, cs) else (1, s)
      | [] \<Rightarrow> (1, s))"

definition has_base_prefix :: "nat \<Rightarrow> char \<Rightarrow> bool" where
  "has_base_prefix base c =
     ((base = 16 \<and> (c = CHR ''x'' \<or> c = CHR ''X''))
      \<or> (base = 8 \<and> (c = CHR ''o'' \<or> c = CHR ''O''))
      \<or> (base = 2 \<and> (c = CHR ''b'' \<or> c = CHR ''B'')))"

definition strip_prefix :: "nat \<Rightarrow> string \<Rightarrow> string" where
  "strip_prefix base s =
     (case s of
        z # c # cs \<Rightarrow>
          if z = CHR ''0'' \<and> has_base_prefix base c
          then (case cs of u # us \<Rightarrow> if u = CHR ''_'' then us else cs | [] \<Rightarrow> cs)
          else s
      | _ \<Rightarrow> s)"

text \<open>
  For a base that is not a power of two, CPython (from 3.11, with its default setting)
  raises \<open>ValueError\<close> when the string has more than 4300 digits; leading zeros count,
  underscores do not.
\<close>

definition is_power_of_two_base :: "nat \<Rightarrow> bool" where
  "is_power_of_two_base base =
     (base = 2 \<or> base = 4 \<or> base = 8 \<or> base = 16 \<or> base = 32)"

definition count_digits :: "nat \<Rightarrow> string \<Rightarrow> nat" where
  "count_digits base s =
     length (filter (\<lambda>c. c \<noteq> CHR ''_'')
               (takeWhile (\<lambda>c. digit_value c < base \<or> c = CHR ''_'') s))"

definition max_str_digits :: nat where
  "max_str_digits = 4300"

text \<open>
  \<open>int(s, base)\<close> for \<open>2 \<le> base \<le> 36\<close>: leading white space, an optional sign, for the
  bases 2, 8 and 16 an optional prefix (with one underscore allowed after it), the digits,
  trailing white space, and nothing else.
\<close>

definition py_int :: "string \<Rightarrow> nat \<Rightarrow> py_error + int" where
  "py_int s base =
     (if base < 2 \<or> 36 < base then Inl ValueError
      else
        let (sign, s1) = strip_sign (dropWhile py_isspace (to_ascii s));
            s2 = strip_prefix base s1
        in case s2 of
             [] \<Rightarrow> Inl ValueError
           | c # cs \<Rightarrow>
               if c = CHR ''_'' then Inl ValueError
               else if \<not> digit_value c < base then Inl ValueError
               else (case scan_digits base (CHR 0x00) 0 s2 of
                       None \<Rightarrow> Inl ValueError
                     | Some (v, rest) \<Rightarrow>
                         if \<not> is_power_of_two_base base \<and> max_str_digits < count_digits base s2
                         then Inl ValueError
                         else if dropWhile py_isspace rest = [] then Inr (sign * v)
                         else Inl ValueError))"

subsection \<open>SHA-256 (\<open>hashlib.sha256\<close>)\<close>

text \<open>
  \<open>hashlib\<close> belongs to Python's standard library. Its SHA-256 is modelled after
  FIPS 180-4: bytes are \<open>8 word\<close>, the working variables are \<open>32 word\<close>, whose addition
  wraps around as the standard's addition modulo \<open>2^32\<close> does.
\<close>

type_synonym byte = "8 word"
type_synonym u32 = "32 word"
type_synonym hash_state = "u32 \<times> u32 \<times> u32 \<times> u32 \<times> u32 \<times> u32 \<times> u32 \<times> u32"

text \<open>
  The round constants and the initial hash value of the standard, written in decimal.
\<close>

definition sha256_K :: "u32 list" where
  "sha256_K =
    [1116352408, 1899447441, 3049323471, 3921009573, 961987163, 1508970993,
     2453635748, 2870763221, 3624381080, 310598401, 607225278, 1426881987,
     1925078388, 2162078206, 2614888103, 3248222580, 3835390401, 4022224774,
     264347078, 604807628, 770255983, 1249150122, 1555081692, 1996064986,
     2554220882, 2821834349, 2952996808, 3210313671, 3336571891, 3584528711,
     113926993, 338241895, 666307205, 773529912, 1294757372, 1396182291,
     1695183700, 1986661051, 2177026350, 2456956037, 2730485921, 2820302411,
     3259730800, 3345764771, 3516065817, 3600352804, 4094571909, 275423344,
     430227734, 506948616, 659060556, 883997877, 958139571, 1322822218,
     1537002063, 1747873779, 1955562222, 2024104815, 2227730452, 2361852424,
     2428436474, 2756734187, 3204031479, 3329325298]"

definition sha256_H0 :: hash_state where
  "sha256_H0 = (1779033703, 3144134277, 1013904242, 2773480762,
                1359893119, 2600822924, 528734635, 1541459225)"

definition Ch :: "u32 \<Rightarrow> u32 \<Rightarrow> u32 \<Rightarrow> u32" where
  "Ch x y z = (x AND y) XOR (NOT x AND z)"

definition Maj :: "u32 \<Rightarrow> u32 \<Rightarrow> u32 \<Rightarrow> u32" where
  "Maj x y z = (x AND y) XOR (x AND z) XOR (y AND z)"

definition Sigma0 :: "u32 \<Rightarrow> u32" where
  "Sigma0 x = word_rotr 2 x XOR word_rotr 13 x XOR word_rotr 22 x"

definition Sigma1 :: "u32 \<Rightarrow> u32" where
  "Sigma1 x = word_rotr 6 x XOR word_rotr 11 x XOR word_rotr 25 x"

definition sigma0 :: "u32 \<Rightarrow> u32" where
  "sigma0 x = word_rotr 7 x XOR word_rotr 18 x XOR drop_bit 3 x"

definition sigma1 :: "u32 \<Rightarrow> u32" where
  "sigma1 x = word_rotr 17 x XOR word_rotr 19 x XOR drop_bit 10 x"

text \<open>The padding: one byte 0x80, zero bytes up to 56 modulo 64, the bit length in 64 bits.\<close>

definition be_bytes64 :: "64 word \<Rightarrow> byte list" where
  "be_bytes64 w = map (\<lambda>i. ucast (drop_bit (8 * (7 - i)) w)) [0..<8]"

definition sha256_pad :: "byte list \<Rightarrow> byte list" where
  "sha256_pad m =
     m @ [0x80] @ replicate ((55 + 64 - length m mod 64) mod 64) 0
       @ be_bytes64 (word_of_nat (8 * length m))"

fun be_words :: "byte list \<Rightarrow> u32 list" where
  "be_words (a # b # c # d # bs) =
     (push_bit 24 (ucast a) OR push_bit 16 (ucast b) OR push_bit 8 (ucast c) OR ucast d)
       # be_words bs"
| "be_words _ = []"

definition extend_schedule :: "u32 list \<Rightarrow> nat \<Rightarrow> u32 list" where
  "extend_schedule w t =
     w @ [sigma1 (w ! (t - 2)) + w ! (t - 7) + sigma0 (w ! (t - 15)) + w ! (t - 16)]"

definition schedule :: "byte list \<Rightarrow> u32 list" where
  "schedule block = foldl extend_schedule (be_words block) [16..<64]"

definition sha256_round :: "hash_state \<Rightarrow> u32 \<times> u32 \<Rightarrow> hash_state" where
  "sha256_round st kw =
     (case st of (a, b, c, d, e, f, g, h) \<Rightarrow>
        let t1 = h + Sigma1 e + Ch e f g + fst kw + snd kw;
            t2 = Sigma0 a + Maj a b c
        in (t1 + t2, a, b, c, d + t1, e, f, g))"

definition add_state :: "hash_state \<Rightarrow> hash_state \<Rightarrow> hash_state" where
  "add_state x y =
     (case x of (a, b, c, d, e, f, g, h) \<Rightarrow>
      case y of (a', b', c', d', e', f', g', h') \<Rightarrow>
        (a + a', b + b', c + c', d + d', e + e', f + f', g + g', h + h'))"

definition compress :: "hash_state \<Rightarrow> byte list \<Rightarrow> hash_state" where
  "compress st block = add_state st (foldl sha256_round st (zip sha256_K (schedule block)))"

fun blocks :: "byte list \<Rightarrow> byte list list" where
  "blocks m = (if m = [] then [] else take 64 m # blocks (drop 64 m))"

declare blocks.simps [simp del]

definition be_bytes32 :: "u32 \<Rightarrow> byte list" where
  "be_bytes32 w = [ucast (drop_bit 24 w), ucast (drop_bit 16 w), ucast (drop_bit 8 w), ucast w]"

definition state_bytes :: "hash_state \<Rightarrow> byte list" where
  "state_bytes st =
     (case st of (a, b, c, d, e, f, g, h) \<Rightarrow>
        be_bytes32 a @ be_bytes32 b @ be_bytes32 c @ be_bytes32 d
          @ be_bytes32 e @ be_bytes32 f @ be_bytes32 g @ be_bytes32 h)"

definition sha256 :: "byte list \<Rightarrow> byte list" where
  "sha256 m = state_bytes (foldl compress sha256_H0 (blocks (sha256_pad m)))"

text \<open>\<open>hexdigest()\<close>: two lowercase hexadecimal characters for each byte.\<close>

definition hex_char :: "nat \<Rightarrow> char" where
  "hex_char n = ''0123456789abcdef'' ! n"

definition hex_byte :: "byte \<Rightarrow> string" where
  "hex_byte b = [hex_char (unat (drop_bit 4 b)), hex_char (unat (b AND 15))]"

definition hexdigest :: "byte list \<Rightarrow> string" where
  "hexdigest bs = concat (map hex_byte bs)"

definition is_lower_hex :: "char \<Rightarrow> bool" where
  "is_lower_hex c = (c \<in> set ''0123456789abcdef'')"

subsection \<open>\<open>compute_image_id\<close>\<close>

text \<open>
  \<open>if not image_bytes: raise ValueError(...)\<close>, then
  \<open>hashlib.sha256(image_bytes).hexdigest()\<close>.
\<close>

definition compute_image_id :: "byte list \<Rightarrow> py_error + string" where
  "compute_image_id image_bytes =
     (if image_bytes = [] then Inl ValueError
      else Inr (hexdigest (sha256 image_bytes)))"

subsection \<open>\<open>is_valid_image_id\<close>\<close>

text \<open>
  The \<open>isinstance(image_id, str)\<close> test always succeeds on the type \<open>string\<close>.
  \<open>len\<close> counts code points.
\<close>

definition is_valid_image_id :: "string \<Rightarrow> bool" where
  "is_valid_image_id image_id =
     (if length image_id \<noteq> 64 then False
      else (case py_int image_id 16 of Inr _ \<Rightarrow> True | Inl _ \<Rightarrow> False))"

section \<open>Deduplication service (app/services/dedup.py)\<close>

text \<open>
  The service object holds the Python set \<open>_known_ids\<close>. Each method takes the object and
  returns it updated; an exception that leaves the method is the left summand.
\<close>

record dedup_service =
  known_ids :: "string fset"

definition get_image_id :: "dedup_service \<Rightarrow> byte list \<Rightarrow> py_error + string" where
  "get_image_id self image_bytes = compute_image_id image_bytes"

definition is_duplicate :: "dedup_service \<Rightarrow> string \<Rightarrow> bool" where
  "is_duplicate self image_id = (image_id |\<in>| known_ids self)"

definition check_and_register ::
  "dedup_service \<Rightarrow> byte list \<Rightarrow> py_error + ((string \<times> bool) \<times> dedup_service)" where
  "check_and_register self image_bytes =
     (case get_image_id self image_bytes of
        Inl e \<Rightarrow> Inl e
      | Inr image_id \<Rightarrow>
          if is_duplicate self image_id then Inr ((image_id, True), self)
          else Inr ((image_id, False),
                    self\<lparr>known_ids := finsert image_id (known_ids self)\<rparr>))"

definition get_known_count :: "dedup_service \<Rightarrow> nat" where
  "get_known_count self = fcard (known_ids self)"

text \<open>\<open>n\<close> calls of \<open>check_and_register\<close> on the same bytes, one after the other.\<close>

fun check_and_register_times ::
  "nat \<Rightarrow> dedup_service \<Rightarrow> byte list \<Rightarrow> py_error + ((string \<times> bool) list \<times> dedup_service)" where
  "check_and_register_times 0 self image_bytes = Inr ([], self)"
| "check_and_register_times (Suc n) self image_bytes =
     (case check_and_register self image_bytes of
        Inl e \<Rightarrow> Inl e
      | Inr (r, self1) \<Rightarrow>
          (case check_and_register_times n self1 image_bytes of
             Inl e \<Rightarrow> Inl e
           | Inr (rs, self2) \<Rightarrow> Inr (r # rs, self2)))"

subsection \<open>Callers that interleave\<close>

text \<open>
  \<open>check_and_register\<close> takes no lock. A caller runs its three statements in order: the
  hash (\<open>get_image_id\<close>), the membership test (\<open>is_duplicate\<close>) and the insertion
  (\<open>_known_ids.add\<close>) with the return. Between two statements of one caller another
  caller may run. Each statement is taken as one indivisible step, which is coarser than
  the byte-code granularity at which CPython switches threads, so every schedule below is
  a schedule of real threads.
\<close>

datatype caller =
    At_hash "byte list"
  | At_test string
  | At_add string
  | Returned "string \<times> bool"
  | Raised py_error

fun caller_step :: "caller \<Rightarrow> dedup_service \<Rightarrow> caller \<times> dedup_service" where
  "caller_step (At_hash image_bytes) self =
     (case get_image_id self image_bytes of
        Inl e \<Rightarrow> (Raised e, self)
      | Inr image_id \<Rightarrow> (At_test image_id, self))"
| "caller_step (At_test image_id) self =
     (if is_duplicate self image_id then (Returned (image_id, True), self)
      else (At_add image_id, self))"
| "caller_step (At_add image_id) self =
     (Returned (image_id, False), self\<lparr>known_ids := finsert image_id (known_ids self)\<rparr>)"
| "caller_step (Returned r) self = (Returned r, self)"
| "caller_step (Raised e) self = (Raised e, self)"

text \<open>A schedule names, step by step, the caller that runs next.\<close>

fun run_schedule :: "nat list \<Rightarrow> caller list \<times> dedup_service \<Rightarrow> caller list \<times> dedup_service" where
  "run_schedule [] cfg = cfg"
| "run_schedule (i # sched) (callers, self) =
     (if i < length callers
      then (case caller_step (callers ! i) self of
              (c, self1) \<Rightarrow> run_schedule sched (callers[i := c], self1))
      else run_schedule sched (callers, self))"

definition new_results :: "caller list \<Rightarrow> nat" where
  "new_results callers =
     length (filter (\<lambda>c. case c of Returned r \<Rightarrow> \<not> snd r | _ \<Rightarrow> False) callers)"

section \<open>Embedding normalisation (app/services/embedder.py)\<close>

text \<open>
  Vectors are \<open>numpy\<close> arrays of floating-point numbers. An entry is a number, an
  infinity or NaN. The rounding of a result that is a number, and the sign of zero, are
  outside the model.
\<close>

datatype npfloat = Num real | PosInf | NegInf | NaN

type_synonym 'a vec = "'a list"

text \<open>
  The division \<open>/\<close> of \<open>numpy\<close>, entry by entry. It never raises: a number divided
  by zero is NaN when it is zero and an infinity otherwise.
\<close>

fun np_divide :: "npfloat \<Rightarrow> npfloat \<Rightarrow> npfloat" where
  "np_divide NaN y = NaN"
| "np_divide x NaN = NaN"
| "np_divide (Num a) (Num b) =
     (if b = 0 then (if a = 0 then NaN else if 0 < a then PosInf else NegInf)
      else Num (a / b))"
| "np_divide (Num a) y = Num 0"
| "np_divide PosInf (Num b) = (if b < 0 then NegInf else PosInf)"
| "np_divide NegInf (Num b) = (if b < 0 then PosInf else NegInf)"
| "np_divide x y = NaN"

text \<open>
  \<open>np.linalg.norm\<close> belongs to \<open>numpy\<close>. What it computes in floating point is not
  the exact norm: it is rounded, and it is zero for a vector of entries so small that
  their squares underflow. \<open>normalize_vector\<close> tests the computed norm, so the norm
  function is an argument here, under the name it has in the source.
\<close>

definition normalize_vector :: "(npfloat vec \<Rightarrow> npfloat) \<Rightarrow> npfloat vec \<Rightarrow> npfloat vec" where
  "normalize_vector linalg_norm vector =
     (let norm = linalg_norm vector in
      if norm = Num 0 then vector
      else map (\<lambda>x. np_divide x norm) vector)"

text \<open>
  The norm in exact arithmetic, for reference: the square root of the sum of the
  squares; NaN and the infinities propagate.
\<close>

fun num_value :: "npfloat \<Rightarrow> real" where
  "num_value (Num a) = a"
| "num_value x = 0"

definition exact_norm :: "npfloat vec \<Rightarrow> npfloat" where
  "exact_norm vector =
     (if NaN \<in> set vector then NaN
      else if PosInf \<in> set vector \<or> NegInf \<in> set vector then PosInf
      else Num (sqrt (\<Sum>x\<leftarrow>vector. num_value x * num_value x)))"

section \<open>Vector store (app/services/faiss_store.py)\<close>

subsection \<open>The index library and the files\<close>

text \<open>
  FAISS is an external library. An \<open>IndexFlatIP\<close> is its dimension \<open>d\<close> and the vectors
  added so far; \<open>ntotal\<close> is their number. The Python wrapper of \<open>add\<close> asserts that the
  rows have \<open>d\<close> columns and appends them. \<open>search\<close> is not modelled: it is the field
  \<open>index_search\<close> of the environment, returning the paired rows \<open>scores[0]\<close> and
  \<open>indices[0]\<close>, or an exception.
\<close>

text \<open>
  The store does not look into the entries of a vector, so their type is a parameter:
  real numbers where scores are computed, \<open>npfloat\<close> where the normalisation matters.
\<close>

record 'a faiss_index =
  d :: nat
  vectors :: "'a vec list"

definition ntotal :: "'a faiss_index \<Rightarrow> int" where
  "ntotal index = int (length (vectors index))"

definition IndexFlatIP :: "nat \<Rightarrow> 'a faiss_index" where
  "IndexFlatIP n = \<lparr>d = n, vectors = []\<rparr>"

definition index_add :: "'a faiss_index \<Rightarrow> 'a vec \<Rightarrow> py_error + 'a faiss_index" where
  "index_add index vec =
     (if length vec = d index then Inr (index\<lparr>vectors := vectors index @ [vec]\<rparr>)
      else Inl AssertionError)"

text \<open>
  \<open>vector.reshape(1, -1)\<close> makes one row of all the entries, also of an array without
  entries (the row is then empty); it does not raise. \<open>astype(np.float32)\<close> is the
  identity here.
\<close>

definition reshape_row :: "'a vec \<Rightarrow> 'a vec" where
  "reshape_row vector = vector"

text \<open>
  A file is missing, or reading it raises, or it has a content. The mapping file is a
  JSON object; each of its two members, when present, is an object from strings to
  strings, kept as the list of its items.
\<close>

datatype 'a disk_file = Missing | Unreadable | Content 'a

record mapping_json =
  text_to_image :: "(string \<times> string) list option"
  image_to_image :: "(string \<times> string) list option"

record 'a env =
  faiss_available :: bool
  text_file :: "'a faiss_index disk_file"
  image_file :: "'a faiss_index disk_file"
  mapping_file :: "mapping_json disk_file"
  index_search :: "'a faiss_index \<Rightarrow> 'a vec \<Rightarrow> int \<Rightarrow> py_error + (real \<times> int) list"

subsection \<open>Dictionaries\<close>

text \<open>
  A Python \<open>dict\<close> keeps its items in insertion order; assigning to a key that is
  present replaces the value in place. This is \<open>AList.update\<close> on the list of items.
\<close>

type_synonym ('k, 'v) dict = "('k \<times> 'v) list"

definition dict_get :: "('k, 'v) dict \<Rightarrow> 'k \<Rightarrow> 'v option" where
  "dict_get dict k = map_of dict k"

definition dict_contains :: "('k, 'v) dict \<Rightarrow> 'k \<Rightarrow> bool" where
  "dict_contains dict k = (map_of dict k \<noteq> None)"

definition dict_set :: "('k, 'v) dict \<Rightarrow> 'k \<Rightarrow> 'v \<Rightarrow> ('k, 'v) dict" where
  "dict_set dict k v = AList.update k v dict"

subsection \<open>The store\<close>

record 'a faiss_store =
  dimension :: nat
  text_index :: "'a faiss_index option"
  image_index :: "'a faiss_index option"
  is_loaded :: bool
  text_id_to_image_id :: "(int, string) dict"
  image_id_to_image_id :: "(int, string) dict"
  image_id_to_text_vector :: "(string, int) dict"
  image_id_to_image_vector :: "(string, int) dict"

definition FAISSStore :: "nat \<Rightarrow> 'a faiss_store" where
  "FAISSStore n =
     \<lparr>dimension = n, text_index = None, image_index = None, is_loaded = False,
      text_id_to_image_id = [], image_id_to_image_id = [],
      image_id_to_text_vector = [], image_id_to_image_vector = []\<rparr>"

text \<open>
  \<open>create_indices\<close>: when the import of the library raises, nothing has been assigned
  and the result is \<open>False\<close>.
\<close>

definition create_indices :: "'a env \<Rightarrow> 'a faiss_store \<Rightarrow> bool \<times> 'a faiss_store" where
  "create_indices e self =
     (if \<not> faiss_available e then (False, self)
      else (True,
            self\<lparr>text_index := Some (IndexFlatIP (dimension self)),
                 image_index := Some (IndexFlatIP (dimension self)),
                 text_id_to_image_id := [],
                 image_id_to_image_id := [],
                 image_id_to_text_vector := [],
                 image_id_to_image_vector := [],
                 is_loaded := True\<rparr>))"

text \<open>
  The dictionary comprehensions of \<open>load_indices\<close>: \<open>{int(k): v for k, v in items}\<close>,
  where \<open>int\<close> may raise, and \<open>{v: k for k, v in items}\<close>.
\<close>

fun int_keys :: "(string \<times> string) list \<Rightarrow> (int, string) dict \<Rightarrow> py_error + (int, string) dict" where
  "int_keys [] acc = Inr acc"
| "int_keys ((k, v) # items) acc =
     (case py_int k 10 of
        Inl e \<Rightarrow> Inl e
      | Inr n \<Rightarrow> int_keys items (dict_set acc n v))"

definition reverse_dict :: "('k, 'v) dict \<Rightarrow> ('v, 'k) dict" where
  "reverse_dict dict = foldl (\<lambda>acc (k, v). dict_set acc v k) [] dict"

definition items_or_empty :: "(string \<times> string) list option \<Rightarrow> (string \<times> string) list" where
  "items_or_empty member = (case member of None \<Rightarrow> [] | Some items \<Rightarrow> items)"

text \<open>
  The body of the \<open>try\<close> block of \<open>load_indices\<close>, up to the first exception. When
  the mapping file is missing the four dictionaries of the object are kept.
\<close>

definition read_index :: "'a faiss_index disk_file \<Rightarrow> py_error + 'a faiss_index" where
  "read_index f = (case f of Content index \<Rightarrow> Inr index | _ \<Rightarrow> Inl IOError)"

definition load_mappings :: "'a env \<Rightarrow> 'a faiss_store \<Rightarrow> py_error + 'a faiss_store" where
  "load_mappings e self =
     (case mapping_file e of
        Missing \<Rightarrow> Inr self
      | Unreadable \<Rightarrow> Inl IOError
      | Content mappings \<Rightarrow>
          (case int_keys (items_or_empty (text_to_image mappings)) [] of
             Inl err \<Rightarrow> Inl err
           | Inr t2i \<Rightarrow>
               (case int_keys (items_or_empty (image_to_image mappings)) [] of
                  Inl err \<Rightarrow> Inl err
                | Inr i2i \<Rightarrow>
                    Inr (self\<lparr>text_id_to_image_id := t2i,
                              image_id_to_image_id := i2i,
                              image_id_to_text_vector := reverse_dict t2i,
                              image_id_to_image_vector := reverse_dict i2i\<rparr>))))"

definition load_from_disk :: "'a env \<Rightarrow> 'a faiss_store \<Rightarrow> py_error + 'a faiss_store" where
  "load_from_disk e self =
     (case read_index (text_file e) of
        Inl err \<Rightarrow> Inl err
      | Inr ti \<Rightarrow>
          (case read_index (image_file e) of
             Inl err \<Rightarrow> Inl err
           | Inr ii \<Rightarrow>
               (case load_mappings e (self\<lparr>text_index := Some ti, image_index := Some ii\<rparr>) of
                  Inl err \<Rightarrow> Inl err
                | Inr self1 \<Rightarrow> Inr (self1\<lparr>is_loaded := True\<rparr>))))"

text \<open>
  \<open>load_indices\<close>: every exception of the body is caught and answered with
  \<open>create_indices\<close>, which assigns every field that the body may have assigned before
  the exception (or, when the library cannot be imported, runs on the untouched object),
  so it is applied to \<open>self\<close>.
\<close>

definition load_indices :: "'a env \<Rightarrow> 'a faiss_store \<Rightarrow> bool \<times> 'a faiss_store" where
  "load_indices e self =
     (if \<not> faiss_available e then create_indices e self
      else if text_file e = Missing \<or> image_file e = Missing then create_indices e self
      else (case load_from_disk e self of
              Inl err \<Rightarrow> create_indices e self
            | Inr self1 \<Rightarrow> (True, self1)))"

definition ensure_loaded :: "'a env \<Rightarrow> 'a faiss_store \<Rightarrow> bool \<times> 'a faiss_store" where
  "ensure_loaded e self = (if \<not> is_loaded self then load_indices e self else (True, self))"

text \<open>
  The \<open>try\<close> block of \<open>add_text_vector\<close>; an index that is \<open>None\<close> has no
  attribute \<open>ntotal\<close>, which raises.
\<close>

datatype kind = Text_kind | Image_kind

definition add_text_vector_body :: "'a faiss_store \<Rightarrow> 'a vec \<Rightarrow> string \<Rightarrow> py_error + (int \<times> 'a faiss_store)" where
  "add_text_vector_body self vector image_id =
     (case dict_get (image_id_to_text_vector self) image_id of
        Some existing \<Rightarrow> Inr (existing, self)
      | None \<Rightarrow>
          (let vec = reshape_row vector in
               (case text_index self of
                  None \<Rightarrow> Inl AttributeError
                | Some index \<Rightarrow>
                    let vector_id = ntotal index in
                    (case index_add index vec of
                       Inl err \<Rightarrow> Inl err
                     | Inr index1 \<Rightarrow>
                         Inr (vector_id,
                              self\<lparr>text_index := Some index1,
                                   text_id_to_image_id :=
                                     dict_set (text_id_to_image_id self) vector_id image_id,
                                   image_id_to_text_vector :=
                                     dict_set (image_id_to_text_vector self) image_id vector_id\<rparr>)))))"

definition add_text_vector :: "'a env \<Rightarrow> 'a faiss_store \<Rightarrow> 'a vec \<Rightarrow> string \<Rightarrow> int option \<times> 'a faiss_store" where
  "add_text_vector e self vector image_id =
     (case ensure_loaded e self of
        (False, self1) \<Rightarrow> (None, self1)
      | (True, self1) \<Rightarrow>
          (case add_text_vector_body self1 vector image_id of
             Inl err \<Rightarrow> (None, self1)
           | Inr (vector_id, self2) \<Rightarrow> (Some vector_id, self2)))"

definition add_image_vector_body :: "'a faiss_store \<Rightarrow> 'a vec \<Rightarrow> string \<Rightarrow> py_error + (int \<times> 'a faiss_store)" where
  "add_image_vector_body self vector image_id =
     (case dict_get (image_id_to_image_vector self) image_id of
        Some existing \<Rightarrow> Inr (existing, self)
      | None \<Rightarrow>
          (let vec = reshape_row vector in
               (case image_index self of
                  None \<Rightarrow> Inl AttributeError
                | Some index \<Rightarrow>
                    let vector_id = ntotal index in
                    (case index_add index vec of
                       Inl err \<Rightarrow> Inl err
                     | Inr index1 \<Rightarrow>
                         Inr (vector_id,
                              self\<lparr>image_index := Some index1,
                                   image_id_to_image_id :=
                                     dict_set (image_id_to_image_id self) vector_id image_id,
                                   image_id_to_image_vector :=
                                     dict_set (image_id_to_image_vector self) image_id vector_id\<rparr>)))))"

definition add_image_vector :: "'a env \<Rightarrow> 'a faiss_store \<Rightarrow> 'a vec \<Rightarrow> string \<Rightarrow> int option \<times> 'a faiss_store" where
  "add_image_vector e self vector image_id =
     (case ensure_loaded e self of
        (False, self1) \<Rightarrow> (None, self1)
      | (True, self1) \<Rightarrow>
          (case add_image_vector_body self1 vector image_id of
             Inl err \<Rightarrow> (None, self1)
           | Inr (vector_id, self2) \<Rightarrow> (Some vector_id, self2)))"

definition get_text_vector_count :: "'a faiss_store \<Rightarrow> int" where
  "get_text_vector_count self =
     (if \<not> is_loaded self then 0
      else (case text_index self of Some index \<Rightarrow> ntotal index | None \<Rightarrow> 0))"

definition get_image_vector_count :: "'a faiss_store \<Rightarrow> int" where
  "get_image_vector_count self =
     (if \<not> is_loaded self then 0
      else (case image_index self of Some index \<Rightarrow> ntotal index | None \<Rightarrow> 0))"

definition has_vectors_for_image :: "'a faiss_store \<Rightarrow> string \<Rightarrow> bool \<times> bool" where
  "has_vectors_for_image self image_id =
     (dict_contains (image_id_to_text_vector self) image_id,
      dict_contains (image_id_to_image_vector self) image_id)"

subsection \<open>Search\<close>

record search_result =
  vector_id :: int
  score :: real

text \<open>The loop over \<open>zip(scores[0], indices[0])\<close>, which skips the negative indices.\<close>

definition collect_results :: "(real \<times> int) list \<Rightarrow> search_result list" where
  "collect_results rows =
     map (\<lambda>(sc, idx). \<lparr>vector_id = idx, score = sc\<rparr>) (filter (\<lambda>(sc, idx). idx \<ge> 0) rows)"

text \<open>
  \<open>search_text\<close> and \<open>search_image\<close> are the same code on the two indices. The test
  \<open>ntotal == 0\<close> stands before the \<open>try\<close> block: on an index that is \<open>None\<close> it
  raises, and the exception leaves the method. Inside the block every exception gives
  the empty list.
\<close>

definition search_index ::
  "'a env \<Rightarrow> 'a faiss_index option \<Rightarrow> 'a vec \<Rightarrow> int \<Rightarrow> py_error + search_result list" where
  "search_index e index_opt query_vector k =
     (case index_opt of
        None \<Rightarrow> Inl AttributeError
      | Some index \<Rightarrow>
          if ntotal index = 0 then Inr []
          else (let query = reshape_row query_vector in
                    (case index_search e index query (min k (ntotal index)) of
                       Inl err \<Rightarrow> Inr []
                     | Inr rows \<Rightarrow> Inr (collect_results rows))))"

definition search_text ::
  "'a env \<Rightarrow> 'a faiss_store \<Rightarrow> 'a vec \<Rightarrow> int \<Rightarrow> (py_error + search_result list) \<times> 'a faiss_store" where
  "search_text e self query_vector k =
     (case ensure_loaded e self of
        (False, self1) \<Rightarrow> (Inr [], self1)
      | (True, self1) \<Rightarrow> (search_index e (text_index self1) query_vector k, self1))"

definition search_image ::
  "'a env \<Rightarrow> 'a faiss_store \<Rightarrow> 'a vec \<Rightarrow> int \<Rightarrow> (py_error + search_result list) \<times> 'a faiss_store" where
  "search_image e self query_vector k =
     (case ensure_loaded e self of
        (False, self1) \<Rightarrow> (Inr [], self1)
      | (True, self1) \<Rightarrow> (search_index e (image_index self1) query_vector k, self1))"

definition get_image_id_from_text_vector :: "'a faiss_store \<Rightarrow> int \<Rightarrow> string option" where
  "get_image_id_from_text_vector self vid = dict_get (text_id_to_image_id self) vid"

definition get_image_id_from_image_vector :: "'a faiss_store \<Rightarrow> int \<Rightarrow> string option" where
  "get_image_id_from_image_vector self vid = dict_get (image_id_to_image_id self) vid"

subsection \<open>Hybrid search\<close>

text \<open>
  \<open>scores\<close> maps an identity to its pair of a text score and an image score.
  \<open>if image_id:\<close> skips \<open>None\<close> and the empty string.
\<close>

type_synonym score_dict = "(string, real \<times> real) dict"

definition ensure_entry :: "score_dict \<Rightarrow> string \<Rightarrow> score_dict" where
  "ensure_entry scores image_id =
     (if \<not> dict_contains scores image_id then dict_set scores image_id (0, 0) else scores)"

definition add_text_score :: "'a faiss_store \<Rightarrow> score_dict \<Rightarrow> search_result \<Rightarrow> score_dict" where
  "add_text_score self scores result =
     (case get_image_id_from_text_vector self (vector_id result) of
        None \<Rightarrow> scores
      | Some image_id \<Rightarrow>
          if image_id = [] then scores
          else AList.map_entry image_id (\<lambda>(t, i). (score result, i)) (ensure_entry scores image_id))"

definition add_image_score :: "'a faiss_store \<Rightarrow> score_dict \<Rightarrow> search_result \<Rightarrow> score_dict" where
  "add_image_score self scores result =
     (case get_image_id_from_image_vector self (vector_id result) of
        None \<Rightarrow> scores
      | Some image_id \<Rightarrow>
          if image_id = [] then scores
          else AList.map_entry image_id (\<lambda>(t, i). (t, score result)) (ensure_entry scores image_id))"

definition final_score :: "real \<Rightarrow> real \<Rightarrow> real \<times> real \<Rightarrow> real" where
  "final_score text_weight image_weight score_pair =
     (let text_score = fst score_pair; image_score = snd score_pair in
      if text_score > 0 \<and> image_score > 0
      then text_weight * text_score + image_weight * image_score
      else if text_score > 0 then text_score
      else image_score)"

definition combine :: "real \<Rightarrow> real \<Rightarrow> score_dict \<Rightarrow> (string \<times> real) list" where
  "combine text_weight image_weight scores =
     map (\<lambda>(image_id, score_pair). (image_id, final_score text_weight image_weight score_pair)) scores"

text \<open>
  \<open>combined.sort(key=lambda x: x[1], reverse=True)\<close> is stable: items with equal
  scores keep their order. \<open>combined[:k]\<close> drops from the end for a negative \<open>k\<close>.
\<close>

definition sort_descending :: "(string \<times> real) list \<Rightarrow> (string \<times> real) list" where
  "sort_descending combined = sort_key (\<lambda>x. - snd x) combined"

definition slice_upto :: "int \<Rightarrow> 'a list \<Rightarrow> 'a list" where
  "slice_upto k xs = (if k \<ge> 0 then take (nat k) xs else take (length xs - nat (- k)) xs)"

text \<open>
  \<open>hybrid_search\<close> in two parts: the two searches with the two loops that fill
  \<open>scores\<close>, and the fusion, the sort and the slice.
\<close>

definition hybrid_scores ::
  "'a env \<Rightarrow> 'a faiss_store \<Rightarrow> 'a vec \<Rightarrow> int \<Rightarrow> (py_error + score_dict) \<times> 'a faiss_store" where
  "hybrid_scores e self query_vector k =
     (let search_k = k * 3 in
      case search_text e self query_vector search_k of
        (Inl err, self1) \<Rightarrow> (Inl err, self1)
      | (Inr text_results, self1) \<Rightarrow>
          (case search_image e self1 query_vector search_k of
             (Inl err, self2) \<Rightarrow> (Inl err, self2)
           | (Inr image_results, self2) \<Rightarrow>
               let scores = foldl (add_text_score self2) [] text_results;
                   scores = foldl (add_image_score self2) scores image_results
               in (Inr scores, self2)))"

definition hybrid_search ::
  "'a env \<Rightarrow> 'a faiss_store \<Rightarrow> 'a vec \<Rightarrow> int \<Rightarrow> real \<Rightarrow> real
     \<Rightarrow> (py_error + (string \<times> real) list) \<times> 'a faiss_store" where
  "hybrid_search e self query_vector k text_weight image_weight =
     (case hybrid_scores e self query_vector k of
        (Inl err, self2) \<Rightarrow> (Inl err, self2)
      | (Inr scores, self2) \<Rightarrow>
          let combined = combine text_weight image_weight scores
          in (Inr (slice_upto k (sort_descending combined)), self2))"

text \<open>
  In the words of the specification: the identities that the results of one kind resolve
  to, and the score of an identity on that side, which is 0 when the identity does not
  appear; of several results for one identity the last counts.
\<close>

definition resolved :: "(int \<Rightarrow> string option) \<Rightarrow> search_result list \<Rightarrow> string list" where
  "resolved lookup results =
     filter (\<lambda>image_id. image_id \<noteq> []) (List.map_filter (\<lambda>r. lookup (vector_id r)) results)"

definition side_score :: "(int \<Rightarrow> string option) \<Rightarrow> search_result list \<Rightarrow> string \<Rightarrow> real" where
  "side_score lookup results image_id =
     (case filter (\<lambda>r. lookup (vector_id r) = Some image_id) results of
        [] \<Rightarrow> 0
      | r # rs \<Rightarrow> score (last (r # rs)))"

text \<open>
  A reference for \<open>IndexFlatIP.search\<close>, used in the examples: the inner product of the
  query with every vector, the best \<open>k\<close> first.
\<close>

definition inner_product :: "real vec \<Rightarrow> real vec \<Rightarrow> real" where
  "inner_product u v = (\<Sum>(x, y)\<leftarrow>zip u v. x * y)"

definition flat_ip_search :: "real faiss_index \<Rightarrow> real vec \<Rightarrow> int \<Rightarrow> py_error + (real \<times> int) list" where
  "flat_ip_search index query k =
     (if length query \<noteq> d index \<or> k \<le> 0 then Inl AssertionError
      else Inr (take (nat k)
                  (sort_key (\<lambda>row. - fst row)
                     (map (\<lambda>j. (inner_product query (vectors index ! j), int j))
                        [0..<length (vectors index)]))))"

section \<open>Example environment\<close>

text \<open>
  An environment in which the library can be imported, no file exists yet, and the
  search is the reference search; and the store it gives for dimension 2.
\<close>

definition example_env :: "real env" where
  "example_env =
     \<lparr>faiss_available = True, text_file = Missing, image_file = Missing,
      mapping_file = Missing, index_search = flat_ip_search\<rparr>"

definition example_store :: "real faiss_store" where
  "example_store = snd (create_indices example_env (FAISSStore 2))"

text \<open>
  The same for vectors of \<open>npfloat\<close>; no search is made on this store, and the search
  of its environment finds nothing.
\<close>

definition float_example_env :: "npfloat env" where
  "float_example_env =
     \<lparr>faiss_available = True, text_file = Missing, image_file = Missing,
      mapping_file = Missing, index_search = (\<lambda>index query k. Inr [])\<rparr>"

definition float_example_store :: "npfloat faiss_store" where
  "float_example_store = snd (create_indices float_example_env (FAISSStore 2))"

text \<open>
  The store of the fusion example: for the query \<open>[1, 0]\<close> item A has the text score
  0.90 and the image score 0.50, item B has the text score 0.95 and no image vector.
\<close>

definition fusion_example_store :: "real faiss_store" where
  "fusion_example_store =
     example_store\<lparr>text_index := Some \<lparr>d = 2, vectors = [[0.90, 0], [0.95, 0]]\<rparr>,
                   image_index := Some \<lparr>d = 2, vectors = [[0.50, 0]]\<rparr>,
                   text_id_to_image_id := [(0, ''A''), (1, ''B'')],
                   image_id_to_image_id := [(0, ''A'')],
                   image_id_to_text_vector := [(''A'', 0), (''B'', 1)],
                   image_id_to_image_vector := [(''A'', 0)]\<rparr>"

section \<open>Sequences of additions\<close>

text \<open>
  The two methods under one name, the kind as an argument, and a sequence of calls on
  one store, with the results in the order of the calls.
\<close>

definition add_vector ::
  "'a env \<Rightarrow> 'a faiss_store \<Rightarrow> kind \<Rightarrow> 'a vec \<Rightarrow> string \<Rightarrow> int option \<times> 'a faiss_store" where
  "add_vector e self knd vector image_id =
     (case knd of
        Text_kind \<Rightarrow> add_text_vector e self vector image_id
      | Image_kind \<Rightarrow> add_image_vector e self vector image_id)"

fun add_vectors ::
  "'a env \<Rightarrow> 'a faiss_store \<Rightarrow> (kind \<times> 'a vec \<times> string) list
     \<Rightarrow> (kind \<times> int option) list \<times> 'a faiss_store" where
  "add_vectors e self [] = ([], self)"
| "add_vectors e self ((knd, vector, image_id) # calls) =
     (case add_vector e self knd vector image_id of
        (r, self1) \<Rightarrow>
          (case add_vectors e self1 calls of
             (rs, self2) \<Rightarrow> ((knd, r) # rs, self2)))"

definition assigned_ids :: "(kind \<times> int option) list \<Rightarrow> kind \<Rightarrow> int list" where
  "assigned_ids results knd =
     concat (map (\<lambda>(k, r). case r of Some vid \<Rightarrow> (if k = knd then [vid] else []) | None \<Rightarrow> [])
               results)"

definition vector_count :: "'a faiss_store \<Rightarrow> kind \<Rightarrow> int" where
  "vector_count self knd =
     (case knd of Text_kind \<Rightarrow> get_text_vector_count self | Image_kind \<Rightarrow> get_image_vector_count self)"

definition id_to_identity :: "'a faiss_store \<Rightarrow> kind \<Rightarrow> (int, string) dict" where
  "id_to_identity self knd =
     (case knd of Text_kind \<Rightarrow> text_id_to_image_id self | Image_kind \<Rightarrow> image_id_to_image_id self)"

definition identity_to_id :: "'a faiss_store \<Rightarrow> kind \<Rightarrow> (string, int) dict" where
  "identity_to_id self knd =
     (case knd of Text_kind \<Rightarrow> image_id_to_text_vector self | Image_kind \<Rightarrow> image_id_to_image_vector self)"

text \<open>
  The invariant of one kind: the keys of the mapping from vector ids are
  \<open>0, \<dots>, ntotal - 1\<close> in this order, no identity occurs twice, and the mapping from
  identities is the same list with the pairs swapped.
\<close>

definition kind_consistent ::
  "'a faiss_index option \<Rightarrow> (int, string) dict \<Rightarrow> (string, int) dict \<Rightarrow> bool" where
  "kind_consistent index_opt fwd bwd =
     (case index_opt of
        None \<Rightarrow> False
      | Some index \<Rightarrow>
          map fst fwd = map int [0..<length (vectors index)]
          \<and> distinct (map snd fwd)
          \<and> bwd = map (\<lambda>(k, v). (v, k)) fwd)"

definition store_consistent :: "'a faiss_store \<Rightarrow> bool" where
  "store_consistent self =
     (is_loaded self
      \<and> kind_consistent (text_index self) (text_id_to_image_id self) (image_id_to_text_vector self)
      \<and> kind_consistent (image_index self) (image_id_to_image_id self)
            (image_id_to_image_vector self))"

section \<open>Properties of the hashing utilities\<close>

lemma length_hex_byte: "length (hex_byte b) = 2"
  by (simp add: hex_byte_def)

lemma length_hexdigest: "length (hexdigest bs) = 2 * length bs"
  by (induction bs) (simp_all add: hexdigest_def length_hex_byte)

lemma length_be_bytes32: "length (be_bytes32 w) = 4"
  by (simp add: be_bytes32_def)

lemma length_state_bytes: "length (state_bytes st) = 32"
  by (simp add: state_bytes_def length_be_bytes32 split: prod.splits)

lemma length_sha256: "length (sha256 m) = 32"
  by (simp add: sha256_def length_state_bytes)

lemma hex_char_lower: "n < 16 \<Longrightarrow> is_lower_hex (hex_char n)"
  unfolding is_lower_hex_def hex_char_def by (rule nth_mem) simp

lemma high_nibble: "unat (drop_bit 4 (b :: byte)) < 16"
proof -
  have "unat b < 256" using unsigned_less [of b] by simp
  moreover have "unat (drop_bit 4 b) = unat b div 16"
    by (simp add: drop_bit_eq_div unat_div)
  ultimately show ?thesis by simp
qed

lemma low_nibble: "unat ((b :: byte) AND 15) < 16"
proof -
  have "b AND 15 \<le> 15"
    by (rule word_and_le1)
  then have "unat (b AND 15) \<le> unat (15 :: byte)"
    by (simp only: word_le_nat_alt)
  then show ?thesis by simp
qed

lemma hex_byte_lower: "c \<in> set (hex_byte b) \<Longrightarrow> is_lower_hex c"
  by (auto simp: hex_byte_def intro: hex_char_lower high_nibble low_nibble)

lemma hexdigest_lower: "c \<in> set (hexdigest bs) \<Longrightarrow> is_lower_hex c"
  by (auto simp: hexdigest_def dest: hex_byte_lower)

text \<open>The model of SHA-256 reproduces the digest of \<open>abc\<close> given in FIPS 180-4.\<close>

lemma sha256_abc:
  "hexdigest (sha256 [0x61, 0x62, 0x63]) =
     ''ba7816bf8f01cfea414140de5dae2223b00361a396177a9cb410ff61f20015ad''"
  by code_simp

text \<open>
  C6: \<open>compute_image_id\<close> raises (\<open>ValueError\<close>) exactly on the empty byte string. On
  every other byte string it returns the SHA-256 digest, 256 bits, written as 64
  characters that are lowercase hexadecimal digits. Equal inputs give equal results.
\<close>

theorem compute_image_id_digest:
  "(compute_image_id b = Inl ValueError \<longleftrightarrow> b = [])
   \<and> (b \<noteq> [] \<longrightarrow>
        compute_image_id b = Inr (hexdigest (sha256 b))
        \<and> length (sha256 b) * 8 = 256
        \<and> length (hexdigest (sha256 b)) = 64
        \<and> (\<forall>c \<in> set (hexdigest (sha256 b)). is_lower_hex c))
   \<and> (b1 = b2 \<longrightarrow> compute_image_id b1 = compute_image_id b2)"
  by (simp add: compute_image_id_def length_hexdigest length_sha256 hexdigest_lower)

theorem compute_image_id_digest_witness:
  "compute_image_id [] = Inl ValueError
   \<and> compute_image_id [0x61, 0x62, 0x63] =
       Inr ''ba7816bf8f01cfea414140de5dae2223b00361a396177a9cb410ff61f20015ad''
   \<and> length ''ba7816bf8f01cfea414140de5dae2223b00361a396177a9cb410ff61f20015ad'' = 64"
  using compute_image_id_digest [of "[]" "[]" "[]"]
        compute_image_id_digest [of "[0x61, 0x62, 0x63]" "[0x61]" "[0x61]"]
  by (simp add: sha256_abc)

text \<open>
  C8: \<open>is_valid_image_id\<close> is meant to accept exactly the strings of 64 hexadecimal
  digits. It accepts 64-character strings with other characters, because \<open>int(s, 16)\<close>
  reads a prefix \<open>0x\<close>, a sign, surrounding white space and single underscores between
  digits: each of the six strings below has 64 characters and is accepted.
\<close>

theorem is_valid_image_id_accepts_non_hex:
  "is_valid_image_id (''0x'' @ replicate 62 (CHR ''a''))
   \<and> is_valid_image_id (''+'' @ replicate 63 (CHR ''a''))
   \<and> is_valid_image_id (''-'' @ replicate 63 (CHR ''a''))
   \<and> is_valid_image_id ('' '' @ replicate 63 (CHR ''a''))
   \<and> is_valid_image_id (replicate 63 (CHR ''a'') @ [CHR 0x0A])
   \<and> is_valid_image_id (''a_'' @ replicate 62 (CHR ''a''))"
  by code_simp

subsection \<open>What \<open>is_valid_image_id\<close> accepts and rejects\<close>

text \<open>
  Every string of 64 hexadecimal digits is accepted, so every identity that
  \<open>compute_image_id\<close> returns is; a character that \<open>int\<close> does not read, a wrong
  length and misplaced underscores are rejected.
\<close>

lemma digit_value_ascii: "digit_value c < 37 \<Longrightarrow> (of_char c :: nat) < 127"
  by (auto simp: digit_value_def Let_def split: if_splits)

lemma digit_value_specials:
  "digit_value c < 37 \<Longrightarrow> c \<noteq> CHR ''_'' \<and> c \<noteq> CHR ''+'' \<and> c \<noteq> CHR ''-'' \<and> \<not> py_isspace c"
  by (auto simp: digit_value_def Let_def py_isspace_def split: if_splits)

lemma digit_value_x: "digit_value c < 16 \<Longrightarrow> c \<noteq> CHR ''x'' \<and> c \<noteq> CHR ''X''"
  by (auto simp: digit_value_def Let_def split: if_splits)

lemma scan_digits_all:
  assumes "\<forall>c \<in> set s. digit_value c < base" and "base \<le> 36" and "prev \<noteq> CHR ''_''"
  shows "\<exists>v. scan_digits base prev acc s = Some (v, [])"
  using assms
proof (induction s arbitrary: prev acc)
  case Nil
  then show ?case by simp
next
  case (Cons c s)
  then have "digit_value c < 37" by auto
  then have "c \<noteq> CHR ''_''" using digit_value_specials by blast
  with Cons show ?case by simp
qed

lemma py_int_hex_digits:
  assumes "s \<noteq> []" and "\<forall>c \<in> set s. digit_value c < 16"
  shows "\<exists>v. py_int s 16 = Inr v"
proof -
  obtain c cs where s: "s = c # cs" using assms(1) by (cases s) auto
  have all37: "\<forall>c \<in> set s. digit_value c < 37" using assms(2) by auto
  have ascii: "to_ascii s = s"
    using all37 digit_value_ascii by (fastforce simp: to_ascii_def)
  have c: "digit_value c < 16" using assms(2) s by simp
  then have c37: "digit_value c < 37" by simp
  have nosp: "dropWhile py_isspace s = s"
    using digit_value_specials [OF c37] by (simp add: s)
  have sign: "strip_sign s = (1, s)"
    using digit_value_specials [OF c37] by (simp add: s strip_sign_def)
  have pre: "strip_prefix 16 s = s"
  proof (cases cs)
    case Nil
    then show ?thesis by (simp add: s strip_prefix_def)
  next
    case (Cons c2 cs2)
    then have "digit_value c2 < 16" using assms(2) s by simp
    then have "\<not> has_base_prefix 16 c2"
      using digit_value_x by (simp add: has_base_prefix_def)
    then show ?thesis by (simp add: s Cons strip_prefix_def)
  qed
  obtain v where v: "scan_digits 16 (CHR 0x00) 0 s = Some (v, [])"
    using scan_digits_all [OF assms(2), of "CHR 0x00" 0] by auto
  show ?thesis
    using c digit_value_specials [OF c37] v
    by (simp add: py_int_def is_power_of_two_base_def ascii nosp sign pre)
       (simp add: s is_power_of_two_base_def)
qed

lemma is_valid_image_id_hex_digits:
  assumes "length s = 64" and "\<forall>c \<in> set s. digit_value c < 16"
  shows "is_valid_image_id s"
proof -
  from assms(1) have "s \<noteq> []" by auto
  from py_int_hex_digits [OF this assms(2)] assms(1) show ?thesis
    by (auto simp: is_valid_image_id_def)
qed

lemma is_lower_hex_digit_value: "is_lower_hex c \<Longrightarrow> digit_value c < 16"
  by (auto simp: is_lower_hex_def digit_value_def)

lemma compute_image_id_valid:
  "compute_image_id b = Inr image_id \<Longrightarrow> is_valid_image_id image_id"
  by (auto simp: compute_image_id_def length_hexdigest length_sha256
      intro!: is_valid_image_id_hex_digits is_lower_hex_digit_value hexdigest_lower
      split: if_splits)

lemma is_valid_image_id_rejects:
  "\<not> is_valid_image_id (replicate 63 (CHR ''a'') @ ''g'')
   \<and> \<not> is_valid_image_id (replicate 63 (CHR ''a''))
   \<and> \<not> is_valid_image_id (replicate 62 (CHR ''a'') @ ''__'')
   \<and> \<not> is_valid_image_id (''_'' @ replicate 63 (CHR ''a''))"
  by code_simp

section \<open>Properties of the deduplication service\<close>

lemma check_and_register_new:
  assumes "b \<noteq> []" and "hexdigest (sha256 b) |\<notin>| known_ids s"
  shows "check_and_register s b =
           Inr ((hexdigest (sha256 b), False),
                s\<lparr>known_ids := finsert (hexdigest (sha256 b)) (known_ids s)\<rparr>)"
  using assms
  by (simp add: check_and_register_def get_image_id_def compute_image_id_def is_duplicate_def)

lemma check_and_register_known:
  assumes "b \<noteq> []" and "hexdigest (sha256 b) |\<in>| known_ids s"
  shows "check_and_register s b = Inr ((hexdigest (sha256 b), True), s)"
  using assms
  by (simp add: check_and_register_def get_image_id_def compute_image_id_def is_duplicate_def)

lemma check_and_register_empty: "check_and_register s [] = Inl ValueError"
  by (simp add: check_and_register_def get_image_id_def compute_image_id_def)

lemma get_known_count_finsert:
  "i |\<notin>| known_ids s \<Longrightarrow>
     get_known_count (s\<lparr>known_ids := finsert i (known_ids s)\<rparr>) = get_known_count s + 1"
  by (simp add: get_known_count_def fcard_finsert_disjoint)

text \<open>
  C5: let \<open>b\<close> be a byte string whose identity exists (\<open>b\<close> is not empty) and is not in
  the registry. The first \<open>check_and_register\<close> returns the identity with \<open>False\<close> and
  inserts it; the second returns the same identity with \<open>True\<close> and leaves the registry
  as it is; the known count has grown by exactly 1.
\<close>

theorem check_and_register_twice:
  assumes "b \<noteq> []" and "hexdigest (sha256 b) |\<notin>| known_ids s"
  shows "let i = hexdigest (sha256 b);
             s1 = s\<lparr>known_ids := finsert i (known_ids s)\<rparr>
         in check_and_register s b = Inr ((i, False), s1)
            \<and> check_and_register s1 b = Inr ((i, True), s1)
            \<and> get_known_count s1 = get_known_count s + 1"
  using assms
  by (simp add: Let_def check_and_register_new check_and_register_known get_known_count_finsert)

theorem check_and_register_twice_witness:
  "check_and_register \<lparr>known_ids = {||}\<rparr> [0x61] =
     Inr ((hexdigest (sha256 [0x61]), False), \<lparr>known_ids = {|hexdigest (sha256 [0x61])|}\<rparr>)
   \<and> check_and_register \<lparr>known_ids = {|hexdigest (sha256 [0x61])|}\<rparr> [0x61] =
     Inr ((hexdigest (sha256 [0x61]), True), \<lparr>known_ids = {|hexdigest (sha256 [0x61])|}\<rparr>)
   \<and> get_known_count \<lparr>known_ids = {|hexdigest (sha256 [0x61])|}\<rparr> =
       get_known_count \<lparr>known_ids = {||}\<rparr> + 1"
  using check_and_register_twice [of "[0x61]" "\<lparr>known_ids = {||}\<rparr>"]
  by (simp add: Let_def)

subsection \<open>Several callers\<close>

lemma check_and_register_times_known:
  assumes "b \<noteq> []" and "hexdigest (sha256 b) |\<in>| known_ids s"
  shows "check_and_register_times n s b = Inr (replicate n (hexdigest (sha256 b), True), s)"
  using assms by (induction n) (simp_all add: check_and_register_known)

text \<open>A caller that runs its three steps without another caller in between is one call.\<close>

lemma caller_alone:
  "run_schedule [0, 0, 0] ([At_hash b], s) =
     (case check_and_register s b of
        Inl e \<Rightarrow> ([Raised e], s)
      | Inr (r, s1) \<Rightarrow> ([Returned r], s1))"
  by (simp add: check_and_register_def split: sum.splits)

text \<open>
  C9, as the code has it: \<open>n \<ge> 2\<close> calls of \<open>check_and_register\<close> on the same bytes
  that run one after the other, the identity not known before, return \<open>False\<close> exactly
  once (the first call) and \<open>True\<close> for the other \<open>n - 1\<close>, and the registry ends with
  the identity in it, one element larger.
\<close>

theorem check_and_register_sequential:
  assumes "2 \<le> n" and "b \<noteq> []" and "hexdigest (sha256 b) |\<notin>| known_ids s"
  shows "let i = hexdigest (sha256 b);
             s1 = s\<lparr>known_ids := finsert i (known_ids s)\<rparr>
         in check_and_register_times n s b = Inr ((i, False) # replicate (n - 1) (i, True), s1)
            \<and> length (filter (\<lambda>r. \<not> snd r) ((i, False) # replicate (n - 1) (i, True))) = 1
            \<and> length (filter (\<lambda>r. snd r) ((i, False) # replicate (n - 1) (i, True))) = n - 1
            \<and> i |\<in>| known_ids s1
            \<and> get_known_count s1 = get_known_count s + 1"
proof -
  obtain m where n: "n = Suc m" using assms(1) by (cases n) auto
  have known: "hexdigest (sha256 b)
      |\<in>| known_ids (s\<lparr>known_ids := finsert (hexdigest (sha256 b)) (known_ids s)\<rparr>)"
    by simp
  show ?thesis
    using assms(2,3) check_and_register_times_known [OF assms(2) known, of m]
    by (simp add: n Let_def check_and_register_new get_known_count_finsert)
qed

theorem check_and_register_sequential_witness:
  "check_and_register_times 3 \<lparr>known_ids = {||}\<rparr> [0x61] =
     Inr ([(hexdigest (sha256 [0x61]), False), (hexdigest (sha256 [0x61]), True),
           (hexdigest (sha256 [0x61]), True)],
          \<lparr>known_ids = {|hexdigest (sha256 [0x61])|}\<rparr>)"
  using check_and_register_sequential [of 3 "[0x61]" "\<lparr>known_ids = {||}\<rparr>"]
  by (simp add: Let_def eval_nat_numeral)

text \<open>
  Two callers with the same bytes whose steps alternate: both pass the membership test
  before either inserts, and both return \<open>False\<close>.
\<close>

theorem interleaved_callers_both_new:
  "run_schedule [0, 1, 0, 1, 0, 1] ([At_hash [0x61], At_hash [0x61]], \<lparr>known_ids = {||}\<rparr>) =
     ([Returned (hexdigest (sha256 [0x61]), False), Returned (hexdigest (sha256 [0x61]), False)],
      \<lparr>known_ids = {|hexdigest (sha256 [0x61])|}\<rparr>)
   \<and> new_results (fst (run_schedule [0, 1, 0, 1, 0, 1]
         ([At_hash [0x61], At_hash [0x61]], \<lparr>known_ids = {||}\<rparr>))) = 2"
  by (simp add: get_image_id_def compute_image_id_def is_duplicate_def new_results_def)

section \<open>Properties of the embedding normalisation\<close>

lemma np_divide_by_zero: "np_divide x (Num 0) \<noteq> Num r"
  by (cases x) simp_all

lemma map_changes:
  assumes "x \<in> set v" and "f x \<noteq> x"
  shows "map f v \<noteq> v"
proof
  assume "map f v = v"
  then have "map f v = map (\<lambda>x. x) v" by simp
  then have "\<forall>x \<in> set v. f x = x" by (simp only: map_eq_conv)
  with assms show False by simp
qed

lemma divide_by_zero_changes:
  assumes "Num a \<in> set v"
  shows "map (\<lambda>x. np_divide x (Num 0)) v \<noteq> v"
  using assms np_divide_by_zero [of "Num a" a] by (rule map_changes)

lemma normalize_vector_zero_norm:
  "linalg_norm v = Num 0 \<Longrightarrow> normalize_vector linalg_norm v = v"
  by (simp add: normalize_vector_def)

lemma exact_norm_zeros: "exact_norm (replicate n (Num 0)) = Num 0"
  by (simp add: exact_norm_def sum_list_replicate)

lemma all_zero_replicate: "\<forall>x \<in> set v. x = c \<Longrightarrow> v = replicate (length v) c"
  by (induction v) simp_all

text \<open>
  In exact arithmetic the other branch gives unit norm: for a vector of numbers whose
  exact norm is not zero, the exact norm of the result is 1.
\<close>

lemma sum_squares_nonneg: "0 \<le> (\<Sum>x\<leftarrow>rs. x * x :: real)"
  by (induction rs) simp_all

lemma sum_squares_scaled:
  "(\<Sum>x\<leftarrow>map (\<lambda>x. x / c) rs. x * x) = (\<Sum>x\<leftarrow>rs. x * x) / (c * c :: real)"
  by (induction rs) (simp_all add: add_divide_distrib)

lemma exact_norm_numbers:
  "exact_norm (map Num rs) = Num (sqrt (\<Sum>x\<leftarrow>rs. x * x))"
  by (auto simp: exact_norm_def comp_def)

lemma normalize_vector_unit:
  assumes "exact_norm (map Num rs) \<noteq> Num 0"
  shows "exact_norm (normalize_vector exact_norm (map Num rs)) = Num 1"
proof -
  define c where "c = sqrt (\<Sum>x\<leftarrow>rs. x * x)"
  have nonneg: "0 \<le> (\<Sum>x\<leftarrow>rs. x * x)" by (rule sum_squares_nonneg)
  have sq: "c * c = (\<Sum>x\<leftarrow>rs. x * x)" using nonneg by (simp add: c_def)
  have c0: "c \<noteq> 0" using assms by (simp add: exact_norm_numbers c_def)
  have nv: "normalize_vector exact_norm (map Num rs) = map Num (map (\<lambda>x. x / c) rs)"
    using c0 by (simp add: normalize_vector_def exact_norm_numbers c_def [symmetric] comp_def)
  have "exact_norm (map Num (map (\<lambda>x. x / c) rs)) = Num (sqrt ((\<Sum>x\<leftarrow>rs. x * x) / (c * c)))"
    by (simp only: exact_norm_numbers sum_squares_scaled)
  also have "\<dots> = Num 1" using c0 by (simp add: sq [symmetric])
  finally show ?thesis by (simp only: nv)
qed

lemma add_text_vector_new:
  assumes "is_loaded st" and "text_index st = Some idx" and "length v = d idx"
    and "dict_get (image_id_to_text_vector st) i = None"
  shows "add_text_vector e st v i =
           (Some (ntotal idx),
            st\<lparr>text_index := Some (idx\<lparr>vectors := vectors idx @ [v]\<rparr>),
               text_id_to_image_id := dict_set (text_id_to_image_id st) (ntotal idx) i,
               image_id_to_text_vector := dict_set (image_id_to_text_vector st) i (ntotal idx)\<rparr>)"
  using assms
  by (simp add: add_text_vector_def ensure_loaded_def add_text_vector_body_def reshape_row_def
      index_add_def Let_def)

lemma add_image_vector_new:
  assumes "is_loaded st" and "image_index st = Some idx" and "length v = d idx"
    and "dict_get (image_id_to_image_vector st) i = None"
  shows "add_image_vector e st v i =
           (Some (ntotal idx),
            st\<lparr>image_index := Some (idx\<lparr>vectors := vectors idx @ [v]\<rparr>),
               image_id_to_image_id := dict_set (image_id_to_image_id st) (ntotal idx) i,
               image_id_to_image_vector := dict_set (image_id_to_image_vector st) i (ntotal idx)\<rparr>)"
  using assms
  by (simp add: add_image_vector_def ensure_loaded_def add_image_vector_body_def reshape_row_def
      index_add_def Let_def)

text \<open>
  C10: \<open>normalize_vector\<close> has no failing branch, and its division is guarded. Whenever
  the computed norm is zero the input is returned unchanged, and the guard matters: the
  division by that norm would turn every number of the vector into NaN or an infinity.
  The norm of the all-zeros vector is computed as zero, so that vector is returned as it
  is, with exact norm 0 and not 1; hence an output of unit norm comes from an input with
  a nonzero entry only. The all-zeros embedding therefore passes through
  \<open>normalize_vector\<close> and is appended to the index un-normalised.
\<close>

theorem normalize_vector_zero_unchanged:
  "(linalg_norm v = Num 0 \<longrightarrow> normalize_vector linalg_norm v = v)
   \<and> (linalg_norm v = Num 0 \<and> (\<exists>a. Num a \<in> set v) \<longrightarrow>
        map (\<lambda>x. np_divide x (linalg_norm v)) v \<noteq> v
        \<and> (\<forall>y \<in> set (map (\<lambda>x. np_divide x (linalg_norm v)) v). \<forall>r. y \<noteq> Num r))
   \<and> (linalg_norm (replicate n (Num 0)) = Num 0 \<longrightarrow>
        normalize_vector linalg_norm (replicate n (Num 0)) = replicate n (Num 0)
        \<and> exact_norm (normalize_vector linalg_norm (replicate n (Num 0))) \<noteq> Num 1)
   \<and> ((\<forall>m. linalg_norm (replicate m (Num 0)) = Num 0)
        \<and> exact_norm (normalize_vector linalg_norm v) = Num 1 \<longrightarrow>
        (\<exists>x \<in> set v. x \<noteq> Num 0))
   \<and> (linalg_norm (replicate n (Num 0)) = Num 0
        \<and> is_loaded st \<and> text_index st = Some idx \<and> d idx = n
        \<and> dict_get (image_id_to_text_vector st) i = None \<longrightarrow>
        fst (add_text_vector e st (normalize_vector linalg_norm (replicate n (Num 0))) i)
          = Some (ntotal idx)
        \<and> text_index (snd (add_text_vector e st
                              (normalize_vector linalg_norm (replicate n (Num 0))) i))
          = Some (idx\<lparr>vectors := vectors idx @ [replicate n (Num 0)]\<rparr>)
        \<and> exact_norm (replicate n (Num 0)) = Num 0)"
proof -
  have a: "linalg_norm v = Num 0 \<longrightarrow> normalize_vector linalg_norm v = v"
    by (simp add: normalize_vector_zero_norm)
  have b: "linalg_norm v = Num 0 \<and> (\<exists>a. Num a \<in> set v) \<longrightarrow>
        map (\<lambda>x. np_divide x (linalg_norm v)) v \<noteq> v
        \<and> (\<forall>y \<in> set (map (\<lambda>x. np_divide x (linalg_norm v)) v). \<forall>r. y \<noteq> Num r)"
    by (auto simp: divide_by_zero_changes np_divide_by_zero)
  have zeros: "linalg_norm (replicate n (Num 0)) = Num 0 \<Longrightarrow>
        normalize_vector linalg_norm (replicate n (Num 0)) = replicate n (Num 0)" for n
    by (rule normalize_vector_zero_norm)
  have c: "linalg_norm (replicate n (Num 0)) = Num 0 \<longrightarrow>
        normalize_vector linalg_norm (replicate n (Num 0)) = replicate n (Num 0)
        \<and> exact_norm (normalize_vector linalg_norm (replicate n (Num 0))) \<noteq> Num 1"
    by (simp add: zeros exact_norm_zeros)
  have dd: "(\<forall>m. linalg_norm (replicate m (Num 0)) = Num 0)
        \<and> exact_norm (normalize_vector linalg_norm v) = Num 1 \<longrightarrow>
        (\<exists>x \<in> set v. x \<noteq> Num 0)"
  proof (intro impI, elim conjE)
    assume all: "\<forall>m. linalg_norm (replicate m (Num 0)) = Num 0"
      and one: "exact_norm (normalize_vector linalg_norm v) = Num 1"
    show "\<exists>x \<in> set v. x \<noteq> Num 0"
    proof (rule ccontr)
      assume "\<not> (\<exists>x \<in> set v. x \<noteq> Num 0)"
      then have v: "v = replicate (length v) (Num 0)" by (intro all_zero_replicate) simp
      from all have "linalg_norm (replicate (length v) (Num 0)) = Num 0" by simp
      then have "normalize_vector linalg_norm (replicate (length v) (Num 0))
                   = replicate (length v) (Num 0)"
        by (rule zeros)
      then have "exact_norm (normalize_vector linalg_norm (replicate (length v) (Num 0))) = Num 0"
        by (simp add: exact_norm_zeros)
      with one v show False by simp
    qed
  qed
  have ee: "linalg_norm (replicate n (Num 0)) = Num 0
        \<and> is_loaded st \<and> text_index st = Some idx \<and> d idx = n
        \<and> dict_get (image_id_to_text_vector st) i = None \<longrightarrow>
        fst (add_text_vector e st (normalize_vector linalg_norm (replicate n (Num 0))) i)
          = Some (ntotal idx)
        \<and> text_index (snd (add_text_vector e st
                              (normalize_vector linalg_norm (replicate n (Num 0))) i))
          = Some (idx\<lparr>vectors := vectors idx @ [replicate n (Num 0)]\<rparr>)
        \<and> exact_norm (replicate n (Num 0)) = Num 0"
    by (simp add: zeros add_text_vector_new exact_norm_zeros)
  from a b c dd ee show ?thesis by blast
qed

theorem normalize_vector_zero_unchanged_witness:
  "exact_norm [Num 0, Num 0] = Num 0
   \<and> normalize_vector exact_norm [Num 0, Num 0] = [Num 0, Num 0]
   \<and> map (\<lambda>x. np_divide x (exact_norm [Num 0, Num 0])) [Num 0, Num 0] = [NaN, NaN]
   \<and> fst (add_text_vector float_example_env float_example_store
            (normalize_vector exact_norm [Num 0, Num 0]) ''A'') = Some 0
   \<and> text_index (snd (add_text_vector float_example_env float_example_store
                        (normalize_vector exact_norm [Num 0, Num 0]) ''A''))
       = Some \<lparr>d = 2, vectors = [[Num 0, Num 0]]\<rparr>"
proof -
  have n0: "exact_norm [Num 0, Num 0] = Num 0"
    by (simp add: exact_norm_def)
  have r2: "replicate 2 (Num 0) = [Num 0, Num 0]"
    by (simp add: eval_nat_numeral)
  have created: "is_loaded float_example_store
      \<and> text_index float_example_store = Some (IndexFlatIP 2)
      \<and> d (IndexFlatIP 2 :: npfloat faiss_index) = 2
      \<and> dict_get (image_id_to_text_vector float_example_store) ''A'' = None"
    by (simp add: float_example_store_def float_example_env_def create_indices_def
        FAISSStore_def IndexFlatIP_def dict_get_def)
  have nz: "normalize_vector exact_norm [Num 0, Num 0] = [Num 0, Num 0]"
    by (rule normalize_vector_zero_norm
          [where linalg_norm = exact_norm and v = "[Num 0, Num 0]", OF n0])
  have dv: "map (\<lambda>x. np_divide x (exact_norm [Num 0, Num 0])) [Num 0, Num 0] = [NaN, NaN]"
    by (simp add: n0)
  from normalize_vector_zero_unchanged
    [where linalg_norm = exact_norm and v = "[Num 0, Num 0]" and n = 2
       and st = float_example_store and idx = "IndexFlatIP 2" and i = "''A''"
       and e = float_example_env]
  have "fst (add_text_vector float_example_env float_example_store
            (normalize_vector exact_norm [Num 0, Num 0]) ''A'') = Some 0
   \<and> text_index (snd (add_text_vector float_example_env float_example_store
                        (normalize_vector exact_norm [Num 0, Num 0]) ''A''))
       = Some \<lparr>d = 2, vectors = [[Num 0, Num 0]]\<rparr>"
    using n0 created by (simp add: r2 nz IndexFlatIP_def ntotal_def)
  with n0 nz dv show ?thesis by simp
qed

section \<open>Properties of the vector store\<close>

lemma add_text_vector_existing:
  assumes "is_loaded st" and "dict_get (image_id_to_text_vector st) i = Some vid"
  shows "add_text_vector e st v i = (Some vid, st)"
  using assms by (simp add: add_text_vector_def ensure_loaded_def add_text_vector_body_def)

lemma add_image_vector_existing:
  assumes "is_loaded st" and "dict_get (image_id_to_image_vector st) i = Some vid"
  shows "add_image_vector e st v i = (Some vid, st)"
  using assms by (simp add: add_image_vector_def ensure_loaded_def add_image_vector_body_def)

lemma add_text_vector_mismatch:
  assumes "is_loaded st" and "text_index st = Some idx" and "length v \<noteq> d idx"
    and "dict_get (image_id_to_text_vector st) i = None"
  shows "add_text_vector e st v i = (None, st)"
  using assms
  by (simp add: add_text_vector_def ensure_loaded_def add_text_vector_body_def reshape_row_def
      index_add_def Let_def)

lemma add_image_vector_mismatch:
  assumes "is_loaded st" and "image_index st = Some idx" and "length v \<noteq> d idx"
    and "dict_get (image_id_to_image_vector st) i = None"
  shows "add_image_vector e st v i = (None, st)"
  using assms
  by (simp add: add_image_vector_def ensure_loaded_def add_image_vector_body_def reshape_row_def
      index_add_def Let_def)


text \<open>
  C4, as the code has it: on a loaded store, for a vector whose length differs from the
  dimension of the kind's index and an identity without a vector of that kind, both
  \<open>add_text_vector\<close> and \<open>add_image_vector\<close> return \<open>None\<close> and leave the store as
  it is: nothing is appended. \<open>None\<close> is also what they return when the indices cannot
  be loaded, so the result does not tell a dimension mismatch from another failure.
\<close>

theorem add_vector_dimension_mismatch:
  "(is_loaded st \<and> text_index st = Some idx \<and> length v \<noteq> d idx
      \<and> dict_get (image_id_to_text_vector st) i = None
      \<longrightarrow> add_text_vector e st v i = (None, st))
   \<and> (is_loaded st \<and> image_index st = Some idx \<and> length v \<noteq> d idx
      \<and> dict_get (image_id_to_image_vector st) i = None
      \<longrightarrow> add_image_vector e st v i = (None, st))
   \<and> (\<not> faiss_available e \<and> \<not> is_loaded st \<longrightarrow>
        add_text_vector e st v i = (None, st) \<and> add_image_vector e st v i = (None, st))"
  by (simp add: add_text_vector_mismatch add_image_vector_mismatch)
     (simp add: add_text_vector_def add_image_vector_def ensure_loaded_def load_indices_def
        create_indices_def)

theorem add_vector_dimension_mismatch_witness:
  "add_text_vector example_env example_store [1, 2, 3] ''A'' = (None, example_store)
   \<and> add_image_vector example_env example_store [1] ''A'' = (None, example_store)
   \<and> add_text_vector (example_env\<lparr>faiss_available := False\<rparr>) (FAISSStore 2) [1, 2] ''A''
       = (None, FAISSStore 2)"
  using add_vector_dimension_mismatch
      [where st = example_store and idx = "IndexFlatIP 2" and v = "[1, 2, 3]" and i = "''A''"
         and e = example_env]
    add_vector_dimension_mismatch
      [where st = example_store and idx = "IndexFlatIP 2" and v = "[1]" and i = "''A''"
         and e = example_env]
    add_vector_dimension_mismatch
      [where st = "FAISSStore 2" and v = "[1, 2]" and i = "''A''"
         and e = "example_env\<lparr>faiss_available := False\<rparr>"]
  by (simp add: example_store_def example_env_def create_indices_def FAISSStore_def
      IndexFlatIP_def dict_get_def)

text \<open>
  In the store of dimension 2 a vector of length 3 makes the library's \<open>add\<close> raise
  its \<open>AssertionError\<close>; the method catches it and returns \<open>None\<close>, the same result
  as for a store whose library cannot be imported.
\<close>

theorem dimension_mismatch_not_distinguished:
  "add_text_vector_body example_store [1, 2, 3] ''A'' = Inl AssertionError
   \<and> fst (add_text_vector example_env example_store [1, 2, 3] ''A'') = None
   \<and> fst (add_text_vector (example_env\<lparr>faiss_available := False\<rparr>) (FAISSStore 2) [1, 2] ''A'')
       = None
   \<and> fst (add_image_vector example_env example_store [1, 2, 3] ''A'') = None"
  by (simp add: example_store_def example_env_def create_indices_def FAISSStore_def
      IndexFlatIP_def dict_get_def add_text_vector_def add_image_vector_def ensure_loaded_def
      load_indices_def add_text_vector_body_def add_image_vector_body_def reshape_row_def
      index_add_def ntotal_def)





subsection \<open>Loading\<close>

lemma load_indices_from_disk:
  assumes "faiss_available e" and "text_file e = Content ti" and "image_file e = Content ii"
    and "mapping_file e = Content mj"
    and "int_keys (items_or_empty (text_to_image mj)) [] = Inr t2i"
    and "int_keys (items_or_empty (image_to_image mj)) [] = Inr i2i"
  shows "load_indices e st =
           (True, st\<lparr>text_index := Some ti, image_index := Some ii,
                     text_id_to_image_id := t2i, image_id_to_image_id := i2i,
                     image_id_to_text_vector := reverse_dict t2i,
                     image_id_to_image_vector := reverse_dict i2i,
                     is_loaded := True\<rparr>)"
  using assms
  by (simp add: load_indices_def load_from_disk_def read_index_def load_mappings_def)

text \<open>A file that cannot be read is answered with new empty indices.\<close>

lemma load_indices_unreadable:
  assumes "faiss_available e" 
    and "text_file e = Unreadable \<or> image_file e = Unreadable \<or> mapping_file e = Unreadable"
  shows "load_indices e st = create_indices e st"
  using assms
  by (auto simp add: load_indices_def load_from_disk_def read_index_def load_mappings_def
      split: disk_file.splits sum.splits)

text \<open>
  C7, as the code has it: \<open>load_indices\<close> compares no counts. When the library can be
  imported, both index files can be read and the mapping file parses, it reports success
  and the store holds the persisted indices and mappings as they are, also when the
  number of vectors of an index differs from the number of entries of its mapping.
\<close>

theorem load_indices_accepts_count_mismatch:
  assumes "faiss_available e" and "text_file e = Content ti" and "image_file e = Content ii"
    and "mapping_file e = Content mj"
    and "int_keys (items_or_empty (text_to_image mj)) [] = Inr t2i"
    and "int_keys (items_or_empty (image_to_image mj)) [] = Inr i2i"
    and "ntotal ti \<noteq> int (length t2i) \<or> ntotal ii \<noteq> int (length i2i)"
  shows "load_indices e st =
           (True, st\<lparr>text_index := Some ti, image_index := Some ii,
                     text_id_to_image_id := t2i, image_id_to_image_id := i2i,
                     image_id_to_text_vector := reverse_dict t2i,
                     image_id_to_image_vector := reverse_dict i2i,
                     is_loaded := True\<rparr>)"
  using assms(1-6) by (rule load_indices_from_disk)

theorem load_indices_accepts_count_mismatch_witness:
  "load_indices
     (example_env\<lparr>text_file := Content \<lparr>d = 2, vectors = [[1, 0]]\<rparr>,
                  image_file := Content \<lparr>d = 2, vectors = [[0, 1]]\<rparr>,
                  mapping_file := Content \<lparr>text_to_image = Some [(''0'', ''A''), (''1'', ''B'')],
                                           image_to_image = None\<rparr>\<rparr>)
     (FAISSStore 2) =
   (True, \<lparr>dimension = 2, text_index = Some \<lparr>d = 2, vectors = [[1, 0]]\<rparr>,
           image_index = Some \<lparr>d = 2, vectors = [[0, 1]]\<rparr>, is_loaded = True,
           text_id_to_image_id = [(0, ''A''), (1, ''B'')], image_id_to_image_id = [],
           image_id_to_text_vector = [(''A'', 0), (''B'', 1)],
           image_id_to_image_vector = []\<rparr>)"
  using load_indices_accepts_count_mismatch
    [where e = "example_env\<lparr>text_file := Content \<lparr>d = 2, vectors = [[1, 0]]\<rparr>,
                  image_file := Content \<lparr>d = 2, vectors = [[0, 1]]\<rparr>,
                  mapping_file := Content \<lparr>text_to_image = Some [(''0'', ''A''), (''1'', ''B'')],
                                           image_to_image = None\<rparr>\<rparr>"
       and ti = "\<lparr>d = 2, vectors = [[1, 0]]\<rparr>" and ii = "\<lparr>d = 2, vectors = [[0, 1]]\<rparr>"
       and mj = "\<lparr>text_to_image = Some [(''0'', ''A''), (''1'', ''B'')], image_to_image = None\<rparr>"
       and t2i = "[(0, ''A''), (1, ''B'')]" and ?i2i = "[]" and st = "FAISSStore 2"]
  by (simp add: example_env_def items_or_empty_def ntotal_def FAISSStore_def reverse_dict_def
      dict_set_def py_int_def is_power_of_two_base_def count_digits_def max_str_digits_def
      to_ascii_def strip_sign_def strip_prefix_def has_base_prefix_def
      digit_value_def py_isspace_def)

text \<open>
  A text index with two vectors persisted with a mapping of one entry: the load returns
  \<open>True\<close>, and the loaded store has a text vector count of 2 and a text mapping of
  length 1.
\<close>

theorem load_indices_count_mismatch_succeeds:
  "load_indices
     (example_env\<lparr>text_file := Content \<lparr>d = 2, vectors = [[1, 0], [0, 1]]\<rparr>,
                  image_file := Content \<lparr>d = 2, vectors = []\<rparr>,
                  mapping_file := Content \<lparr>text_to_image = Some [(''0'', ''A'')],
                                           image_to_image = Some []\<rparr>\<rparr>)
     (FAISSStore 2) =
   (True, \<lparr>dimension = 2, text_index = Some \<lparr>d = 2, vectors = [[1, 0], [0, 1]]\<rparr>,
           image_index = Some \<lparr>d = 2, vectors = []\<rparr>, is_loaded = True,
           text_id_to_image_id = [(0, ''A'')], image_id_to_image_id = [],
           image_id_to_text_vector = [(''A'', 0)], image_id_to_image_vector = []\<rparr>)
   \<and> get_text_vector_count
        \<lparr>dimension = 2, text_index = Some \<lparr>d = 2, vectors = [[1, 0], [0, 1]]\<rparr>,
         image_index = Some \<lparr>d = 2, vectors = []\<rparr>, is_loaded = True,
         text_id_to_image_id = [(0, ''A'')], image_id_to_image_id = [],
         image_id_to_text_vector = [(''A'', 0)], image_id_to_image_vector = []\<rparr> = 2
   \<and> length [(0 :: int, ''A'')] = 1"
  by (simp add: example_env_def load_indices_def load_from_disk_def read_index_def
      load_mappings_def items_or_empty_def ntotal_def FAISSStore_def reverse_dict_def
      dict_set_def py_int_def is_power_of_two_base_def count_digits_def max_str_digits_def
      to_ascii_def strip_sign_def strip_prefix_def has_base_prefix_def
      digit_value_def py_isspace_def get_text_vector_count_def)

subsection \<open>The invariant of the mappings\<close>

lemma update_fresh_key: "k \<notin> fst ` set al \<Longrightarrow> AList.update k v al = al @ [(k, v)]"
  by (induction al) auto

lemma swapped_keys: "fst ` (\<lambda>(k, v). (v, k)) ` A = snd ` A"
  by force

lemma kind_consistent_keys:
  assumes "kind_consistent (Some idx) fwd bwd"
  shows "set (map fst fwd) = {0 ..< ntotal idx}" and "int (length fwd) = ntotal idx"
proof -
  from assms have m: "map fst fwd = map int [0..<length (vectors idx)]"
    by (simp add: kind_consistent_def)
  have "set (map int [0..<length (vectors idx)]) = {0 ..< int (length (vectors idx))}"
    by (simp add: image_int_atLeastLessThan)
  with m show "set (map fst fwd) = {0 ..< ntotal idx}" by (simp add: ntotal_def)
  from m have "length (map fst fwd) = length (map int [0..<length (vectors idx)])" by simp
  then show "int (length fwd) = ntotal idx" by (simp add: ntotal_def)
qed

lemma kind_consistent_lookup:
  assumes "kind_consistent (Some idx) fwd bwd"
  shows "dict_get bwd i = Some v \<longleftrightarrow> dict_get fwd v = Some i"
proof -
  from assms have dk: "distinct (map fst fwd)" and ds: "distinct (map snd fwd)"
    and b: "bwd = map (\<lambda>(k, v). (v, k)) fwd"
    by (simp_all add: kind_consistent_def distinct_map inj_on_def)
  have db: "distinct (map fst bwd)" using ds by (simp add: b comp_def case_prod_beta)
  have "dict_get bwd i = Some v \<longleftrightarrow> (i, v) \<in> set bwd"
    using db by (simp add: dict_get_def)
  also have "\<dots> \<longleftrightarrow> (v, i) \<in> set fwd" by (auto simp: b)
  also have "\<dots> \<longleftrightarrow> dict_get fwd v = Some i" using dk by (simp add: dict_get_def)
  finally show ?thesis .
qed

lemma kind_consistent_append:
  assumes "kind_consistent (Some idx) fwd bwd" and "dict_get bwd i = None"
  shows "kind_consistent (Some (idx\<lparr>vectors := vectors idx @ [v]\<rparr>))
           (dict_set fwd (ntotal idx) i) (dict_set bwd i (ntotal idx))
         \<and> dict_set fwd (ntotal idx) i = fwd @ [(ntotal idx, i)]"
proof -
  from assms(1) have m: "map fst fwd = map int [0..<length (vectors idx)]"
    and ds: "distinct (map snd fwd)" and b: "bwd = map (\<lambda>(k, v). (v, k)) fwd"
    by (simp_all add: kind_consistent_def)
  have "ntotal idx \<notin> set (map fst fwd)"
    using kind_consistent_keys(1) [OF assms(1)] by simp
  then have f: "dict_set fwd (ntotal idx) i = fwd @ [(ntotal idx, i)]"
    by (simp add: dict_set_def update_fresh_key)
  have inone: "i \<notin> fst ` set bwd"
    using assms(2) by (simp add: dict_get_def map_of_eq_None_iff)
  then have g: "dict_set bwd i (ntotal idx) = bwd @ [(i, ntotal idx)]"
    by (simp add: dict_set_def update_fresh_key)
  have "i \<notin> snd ` set fwd" using inone by (simp add: b swapped_keys)
  then show ?thesis
    using m ds b f g by (simp add: kind_consistent_def ntotal_def)
qed


lemma store_consistent_created:
  assumes "create_indices e st0 = (True, st)"
  shows "store_consistent st" and "id_to_identity st knd = []"
  using assms
  by (auto simp: create_indices_def store_consistent_def kind_consistent_def IndexFlatIP_def
      id_to_identity_def split: if_splits kind.splits)

text \<open>One call: the invariant is kept, and the keys grow by exactly the id returned.\<close>

lemma add_text_vector_consistent:
  assumes "store_consistent st" and "add_text_vector e st v i = (r, st1)"
  shows "store_consistent st1
         \<and> set (map fst (text_id_to_image_id st1)) = set (map fst (text_id_to_image_id st)) \<union> set_option r
         \<and> image_id_to_image_id st1 = image_id_to_image_id st"
proof -
  from assms(1) obtain idx where idx: "text_index st = Some idx" and loaded: "is_loaded st"
    and kc: "kind_consistent (Some idx) (text_id_to_image_id st) (image_id_to_text_vector st)"
    by (auto simp: store_consistent_def kind_consistent_def split: option.splits)
  show ?thesis
  proof (cases "dict_get (image_id_to_text_vector st) i")
    case (Some vid)
    then have "dict_get (text_id_to_image_id st) vid = Some i"
      using kind_consistent_lookup [OF kc] by simp
    then have "vid \<in> set (map fst (text_id_to_image_id st))"
      by (auto simp: dict_get_def dest: map_of_SomeD intro: rev_image_eqI)
    moreover have "r = Some vid" and "st1 = st"
      using assms(2) add_text_vector_existing [OF loaded Some, of e v] by simp_all
    ultimately show ?thesis using assms(1) by auto
  next
    case None
    show ?thesis
    proof (cases "length v = d idx")
      case True
      then have eq: "add_text_vector e st v i =
           (Some (ntotal idx),
            st\<lparr>text_index := Some (idx\<lparr>vectors := vectors idx @ [v]\<rparr>),
               text_id_to_image_id := dict_set (text_id_to_image_id st) (ntotal idx) i,
               image_id_to_text_vector := dict_set (image_id_to_text_vector st) i (ntotal idx)\<rparr>)"
        using add_text_vector_new [OF loaded idx _ None, of v e] by simp
      from kind_consistent_append [OF kc None, of v] eq assms show ?thesis
        by (auto simp: store_consistent_def)
    next
      case False
      then have "add_text_vector e st v i = (None, st)"
        using loaded idx None
        by (auto simp: add_text_vector_def ensure_loaded_def add_text_vector_body_def
            reshape_row_def index_add_def Let_def)
      with assms show ?thesis by auto
    qed
  qed
qed

lemma add_image_vector_consistent:
  assumes "store_consistent st" and "add_image_vector e st v i = (r, st1)"
  shows "store_consistent st1
         \<and> set (map fst (image_id_to_image_id st1)) = set (map fst (image_id_to_image_id st)) \<union> set_option r
         \<and> text_id_to_image_id st1 = text_id_to_image_id st"
proof -
  from assms(1) obtain idx where idx: "image_index st = Some idx" and loaded: "is_loaded st"
    and kc: "kind_consistent (Some idx) (image_id_to_image_id st) (image_id_to_image_vector st)"
    by (auto simp: store_consistent_def kind_consistent_def split: option.splits)
  show ?thesis
  proof (cases "dict_get (image_id_to_image_vector st) i")
    case (Some vid)
    then have "dict_get (image_id_to_image_id st) vid = Some i"
      using kind_consistent_lookup [OF kc] by simp
    then have "vid \<in> set (map fst (image_id_to_image_id st))"
      by (auto simp: dict_get_def dest: map_of_SomeD intro: rev_image_eqI)
    moreover have "r = Some vid" and "st1 = st"
      using assms(2) add_image_vector_existing [OF loaded Some, of e v] by simp_all
    ultimately show ?thesis using assms(1) by auto
  next
    case None
    show ?thesis
    proof (cases "length v = d idx")
      case True
      then have eq: "add_image_vector e st v i =
           (Some (ntotal idx),
            st\<lparr>image_index := Some (idx\<lparr>vectors := vectors idx @ [v]\<rparr>),
               image_id_to_image_id := dict_set (image_id_to_image_id st) (ntotal idx) i,
               image_id_to_image_vector := dict_set (image_id_to_image_vector st) i (ntotal idx)\<rparr>)"
        using add_image_vector_new [OF loaded idx _ None, of v e] by simp
      from kind_consistent_append [OF kc None, of v] eq assms show ?thesis
        by (auto simp: store_consistent_def)
    next
      case False
      then have "add_image_vector e st v i = (None, st)"
        using loaded idx None
        by (auto simp: add_image_vector_def ensure_loaded_def add_image_vector_body_def
            reshape_row_def index_add_def Let_def)
      with assms show ?thesis by auto
    qed
  qed
qed


lemma add_vector_consistent:
  assumes "store_consistent st" and "add_vector e st k0 v i = (r, st1)"
  shows "store_consistent st1
         \<and> set (map fst (id_to_identity st1 knd)) =
             set (map fst (id_to_identity st knd)) \<union> (if knd = k0 then set_option r else {})"
proof (cases k0)
  case Text_kind
  with assms(2) have "add_text_vector e st v i = (r, st1)" by (simp add: add_vector_def)
  from add_text_vector_consistent [OF assms(1) this] Text_kind show ?thesis
    by (cases knd) (simp_all add: id_to_identity_def)
next
  case Image_kind
  with assms(2) have "add_image_vector e st v i = (r, st1)" by (simp add: add_vector_def)
  from add_image_vector_consistent [OF assms(1) this] Image_kind show ?thesis
    by (cases knd) (simp_all add: id_to_identity_def)
qed

lemma assigned_ids_Cons:
  "set (assigned_ids ((k0, r) # rs) knd) =
     (if knd = k0 then set_option r else {}) \<union> set (assigned_ids rs knd)"
  by (cases r) (auto simp: assigned_ids_def)

lemma add_vectors_consistent:
  assumes "store_consistent st" and "add_vectors e st calls = (results, st')"
  shows "store_consistent st'
         \<and> set (map fst (id_to_identity st' knd)) =
             set (map fst (id_to_identity st knd)) \<union> set (assigned_ids results knd)"
  using assms
proof (induction calls arbitrary: st results st')
  case Nil
  then show ?case by (simp add: assigned_ids_def)
next
  case (Cons call calls)
  obtain k0 v i where call: "call = (k0, v, i)" by (cases call) auto
  obtain r st1 where step: "add_vector e st k0 v i = (r, st1)" by fastforce
  obtain rs st2 where rest: "add_vectors e st1 calls = (rs, st2)" by fastforce
  from Cons.prems(2) call step rest have res: "results = (k0, r) # rs" and st': "st' = st2"
    by simp_all
  note one = add_vector_consistent [OF Cons.prems(1) step, of knd]
  from one have c1: "store_consistent st1" by simp
  note ih = Cons.IH [OF c1 rest]
  from one ih show ?case
    unfolding res st' assigned_ids_Cons by auto
qed

lemma store_consistent_count:
  fixes st :: "'a faiss_store"
  assumes "store_consistent st"
  shows "set (map fst (id_to_identity st knd)) = {0 ..< vector_count st knd}"
    and "int (length (id_to_identity st knd)) = vector_count st knd"
    and "distinct (map snd (id_to_identity st knd))"
    and "distinct (map fst (identity_to_id st knd))"
    and "dict_get (identity_to_id st knd) i = Some vid
           \<longleftrightarrow> dict_get (id_to_identity st knd) vid = Some i"
proof -
  obtain idx :: "'a faiss_index"
    where kc: "kind_consistent (Some idx) (id_to_identity st knd) (identity_to_id st knd)"
    and cnt: "vector_count st knd = ntotal idx"
    using assms
    by (cases knd)
       (auto simp: store_consistent_def kind_consistent_def id_to_identity_def identity_to_id_def
          vector_count_def get_text_vector_count_def get_image_vector_count_def
          split: option.splits)
  show "set (map fst (id_to_identity st knd)) = {0 ..< vector_count st knd}"
    using kind_consistent_keys(1) [OF kc] cnt by simp
  show "int (length (id_to_identity st knd)) = vector_count st knd"
    using kind_consistent_keys(2) [OF kc] cnt by simp
  show ds: "distinct (map snd (id_to_identity st knd))"
    using kc by (simp add: kind_consistent_def)
  have "identity_to_id st knd = map (\<lambda>(k, v). (v, k)) (id_to_identity st knd)"
    using kc by (simp add: kind_consistent_def)
  then show "distinct (map fst (identity_to_id st knd))"
    using ds by (simp add: comp_def case_prod_beta)
  show "dict_get (identity_to_id st knd) i = Some vid
           \<longleftrightarrow> dict_get (id_to_identity st knd) vid = Some i"
    by (rule kind_consistent_lookup [OF kc])
qed

text \<open>
  C3: start from the empty indices that \<open>create_indices\<close> gives and run any sequence of
  \<open>add_text_vector\<close> and \<open>add_image_vector\<close> calls. Then, for each kind, the vector
  ids returned by the calls are exactly \<open>0, \<dots>, M - 1\<close>, where \<open>M\<close> is the kind's
  vector count; the keys of the mapping from vector ids are the same set and the mapping
  has \<open>M\<close> entries; and an identity has at most one vector id: it occurs once in the
  mapping from identities and once among the values of the mapping from vector ids, and
  the two mappings are inverse to each other.
\<close>

theorem vector_ids_dense:
  assumes "create_indices e st0 = (True, st)" and "add_vectors e st calls = (results, st')"
  shows "set (assigned_ids results knd) = {0 ..< vector_count st' knd}
         \<and> set (map fst (id_to_identity st' knd)) = {0 ..< vector_count st' knd}
         \<and> int (length (id_to_identity st' knd)) = vector_count st' knd
         \<and> distinct (map fst (identity_to_id st' knd))
         \<and> distinct (map snd (id_to_identity st' knd))
         \<and> (\<forall>i vid. dict_get (identity_to_id st' knd) i = Some vid
                \<longleftrightarrow> dict_get (id_to_identity st' knd) vid = Some i)"
proof -
  note created = store_consistent_created [OF assms(1)]
  note run = add_vectors_consistent [OF created(1) assms(2), of knd]
  from run have c: "store_consistent st'" by simp
  from run created(2) [of knd]
  have "set (map fst (id_to_identity st' knd)) = set (assigned_ids results knd)" by simp
  with store_consistent_count [OF c, of knd] show ?thesis by simp
qed

theorem vector_ids_dense_witness:
  "create_indices example_env (FAISSStore 2) = (True, example_store)
   \<and> add_vectors example_env example_store
        [(Text_kind, [1, 0], ''A''), (Image_kind, [0, 1], ''A''), (Text_kind, [1, 0], ''A''),
         (Text_kind, [1], ''C''), (Text_kind, [1, 1], ''B'')] =
       ([(Text_kind, Some 0), (Image_kind, Some 0), (Text_kind, Some 0), (Text_kind, None),
         (Text_kind, Some 1)],
        example_store\<lparr>text_index := Some \<lparr>d = 2, vectors = [[1, 0], [1, 1]]\<rparr>,
                      image_index := Some \<lparr>d = 2, vectors = [[0, 1]]\<rparr>,
                      text_id_to_image_id := [(0, ''A''), (1, ''B'')],
                      image_id_to_image_id := [(0, ''A'')],
                      image_id_to_text_vector := [(''A'', 0), (''B'', 1)],
                      image_id_to_image_vector := [(''A'', 0)]\<rparr>)
   \<and> set (assigned_ids [(Text_kind, Some 0), (Image_kind, Some 0), (Text_kind, Some 0),
                         (Text_kind, None), (Text_kind, Some 1)] Text_kind) = {0 ..< 2}
   \<and> vector_count
        (example_store\<lparr>text_index := Some \<lparr>d = 2, vectors = [[1, 0], [1, 1]]\<rparr>,
                      image_index := Some \<lparr>d = 2, vectors = [[0, 1]]\<rparr>,
                      text_id_to_image_id := [(0, ''A''), (1, ''B'')],
                      image_id_to_image_id := [(0, ''A'')],
                      image_id_to_text_vector := [(''A'', 0), (''B'', 1)],
                      image_id_to_image_vector := [(''A'', 0)]\<rparr>) Text_kind = 2"
proof -
  have created: "create_indices example_env (FAISSStore 2) = (True, example_store)"
    by (simp add: example_store_def example_env_def create_indices_def)
  have run: "add_vectors example_env example_store
        [(Text_kind, [1, 0], ''A''), (Image_kind, [0, 1], ''A''), (Text_kind, [1, 0], ''A''),
         (Text_kind, [1], ''C''), (Text_kind, [1, 1], ''B'')] =
       ([(Text_kind, Some 0), (Image_kind, Some 0), (Text_kind, Some 0), (Text_kind, None),
         (Text_kind, Some 1)],
        example_store\<lparr>text_index := Some \<lparr>d = 2, vectors = [[1, 0], [1, 1]]\<rparr>,
                      image_index := Some \<lparr>d = 2, vectors = [[0, 1]]\<rparr>,
                      text_id_to_image_id := [(0, ''A''), (1, ''B'')],
                      image_id_to_image_id := [(0, ''A'')],
                      image_id_to_text_vector := [(''A'', 0), (''B'', 1)],
                      image_id_to_image_vector := [(''A'', 0)]\<rparr>)"
    by (simp add: example_store_def example_env_def create_indices_def FAISSStore_def
        IndexFlatIP_def add_vector_def add_text_vector_def add_image_vector_def
        ensure_loaded_def add_text_vector_body_def add_image_vector_body_def dict_get_def
        dict_set_def reshape_row_def index_add_def ntotal_def)
  have cnt: "vector_count
        (example_store\<lparr>text_index := Some \<lparr>d = 2, vectors = [[1, 0], [1, 1]]\<rparr>,
                      image_index := Some \<lparr>d = 2, vectors = [[0, 1]]\<rparr>,
                      text_id_to_image_id := [(0, ''A''), (1, ''B'')],
                      image_id_to_image_id := [(0, ''A'')],
                      image_id_to_text_vector := [(''A'', 0), (''B'', 1)],
                      image_id_to_image_vector := [(''A'', 0)]\<rparr>) Text_kind = 2"
    by (simp add: vector_count_def get_text_vector_count_def ntotal_def example_store_def
        example_env_def create_indices_def)
  from vector_ids_dense [OF created run, of Text_kind] created run cnt
  show ?thesis by simp
qed

subsection \<open>Hybrid search\<close>

lemma side_score_last:
  "side_score lookup results i =
     (if filter (\<lambda>r. lookup (vector_id r) = Some i) results = [] then 0
      else score (last (filter (\<lambda>r. lookup (vector_id r) = Some i) results)))"
  by (simp add: side_score_def split: list.splits)

lemma resolved_snoc:
  "resolved lookup (rs @ [r]) =
     resolved lookup rs @ (case lookup (vector_id r) of None \<Rightarrow> [] | Some j \<Rightarrow> if j = [] then [] else [j])"
  by (simp add: resolved_def List.map_filter_def split: option.splits)

lemma side_score_snoc:
  "side_score lookup (rs @ [r]) i =
     (if lookup (vector_id r) = Some i then score r else side_score lookup rs i)"
  by (simp add: side_score_last)

lemma side_score_absent:
  "i \<noteq> [] \<Longrightarrow> i \<notin> set (resolved lookup rs) \<Longrightarrow> side_score lookup rs i = 0"
  by (induction rs rule: rev_induct)
     (auto simp: resolved_snoc side_score_snoc side_score_last split: option.splits if_splits)

lemma ensure_entry_props:
  "map_of (ensure_entry sc j) = (case map_of sc j of None \<Rightarrow> (map_of sc)(j \<mapsto> (0, 0)) | Some p \<Rightarrow> map_of sc)"
  "distinct (map fst sc) \<Longrightarrow> distinct (map fst (ensure_entry sc j))"
  by (auto simp: ensure_entry_def dict_contains_def dict_set_def update_conv' distinct_update
      split: option.splits)


lemma resolved_nonempty: "i \<in> set (resolved lookup rs) \<Longrightarrow> i \<noteq> []"
  by (simp add: resolved_def)

lemma ensure_entry_lookup:
  "map_of (ensure_entry sc j) i =
     (if i = j \<and> map_of sc j = None then Some (0, 0) else map_of sc i)"
  by (simp add: ensure_entry_def dict_contains_def dict_set_def update_conv')

lemma add_text_score_distinct:
  "distinct (map fst sc) \<Longrightarrow> distinct (map fst (add_text_score st sc r))"
  by (simp add: add_text_score_def ensure_entry_props(2) distinct_map_entry split: option.splits)

lemma add_image_score_distinct:
  "distinct (map fst sc) \<Longrightarrow> distinct (map fst (add_image_score st sc r))"
  by (simp add: add_image_score_def ensure_entry_props(2) distinct_map_entry split: option.splits)

lemma add_text_score_lookup:
  "map_of (add_text_score st sc r) i =
      (case get_image_id_from_text_vector st (vector_id r) of
         None \<Rightarrow> map_of sc i
       | Some j \<Rightarrow>
           if j = [] \<or> j \<noteq> i then map_of sc i
           else Some (score r, case map_of sc i of None \<Rightarrow> 0 | Some p \<Rightarrow> snd p))"
  by (simp add: add_text_score_def ensure_entry_lookup map_of_map_entry
      split: option.splits prod.splits)

lemma add_image_score_lookup:
  "map_of (add_image_score st sc r) i =
      (case get_image_id_from_image_vector st (vector_id r) of
         None \<Rightarrow> map_of sc i
       | Some j \<Rightarrow>
           if j = [] \<or> j \<noteq> i then map_of sc i
           else Some (case map_of sc i of None \<Rightarrow> 0 | Some p \<Rightarrow> fst p, score r))"
  by (simp add: add_image_score_def ensure_entry_lookup map_of_map_entry
      split: option.splits prod.splits)

lemma text_loop:
  assumes "distinct (map fst sc0)"
  shows "distinct (map fst (foldl (add_text_score st) sc0 rs))
    \<and> (\<forall>i. map_of (foldl (add_text_score st) sc0 rs) i =
          (if i \<in> set (resolved (get_image_id_from_text_vector st) rs)
           then Some (side_score (get_image_id_from_text_vector st) rs i,
                      case map_of sc0 i of None \<Rightarrow> 0 | Some p \<Rightarrow> snd p)
           else map_of sc0 i))"
proof (induction rs rule: rev_induct)
  case Nil
  show ?case using assms by (simp add: resolved_def List.map_filter_def)
next
  case (snoc r rs)
  let ?sc = "foldl (add_text_score st) sc0 rs"
  from snoc have dist: "distinct (map fst ?sc)" by simp
  show ?case
    using snoc add_text_score_distinct [OF dist, of st r]
    by (auto simp: add_text_score_lookup resolved_snoc side_score_snoc
        simp del: map_of_eq_Some_iff dest: resolved_nonempty split: option.splits)
qed

lemma image_loop:
  assumes "distinct (map fst sc0)"
  shows "distinct (map fst (foldl (add_image_score st) sc0 rs))
    \<and> (\<forall>i. map_of (foldl (add_image_score st) sc0 rs) i =
          (if i \<in> set (resolved (get_image_id_from_image_vector st) rs)
           then Some (case map_of sc0 i of None \<Rightarrow> 0 | Some p \<Rightarrow> fst p,
                      side_score (get_image_id_from_image_vector st) rs i)
           else map_of sc0 i))"
proof (induction rs rule: rev_induct)
  case Nil
  show ?case using assms by (simp add: resolved_def List.map_filter_def)
next
  case (snoc r rs)
  let ?sc = "foldl (add_image_score st) sc0 rs"
  from snoc have dist: "distinct (map fst ?sc)" by simp
  show ?case
    using snoc add_image_score_distinct [OF dist, of st r]
    by (auto simp: add_image_score_lookup resolved_snoc side_score_snoc
        simp del: map_of_eq_Some_iff dest: resolved_nonempty split: option.splits)
qed


lemma scores_lookup:
  fixes st tr ir
  defines "sc \<equiv> foldl (add_image_score st) (foldl (add_text_score st) [] tr) ir"
  defines "cands \<equiv> set (resolved (get_image_id_from_text_vector st) tr)
                    \<union> set (resolved (get_image_id_from_image_vector st) ir)"
  shows "distinct (map fst sc)"
    and "set (map fst sc) = cands"
    and "i \<in> cands \<Longrightarrow>
           map_of sc i = Some (side_score (get_image_id_from_text_vector st) tr i,
                               side_score (get_image_id_from_image_vector st) ir i)"
proof -
  let ?tl = "get_image_id_from_text_vector st" and ?il = "get_image_id_from_image_vector st"
  let ?sct = "foldl (add_text_score st) [] tr"
  have t: "distinct (map fst ?sct)"
    "\<And>i. map_of ?sct i = (if i \<in> set (resolved ?tl tr) then Some (side_score ?tl tr i, 0) else None)"
    using text_loop [of "[]" st tr] by simp_all
  have m: "distinct (map fst sc)"
    "\<And>i. map_of sc i =
          (if i \<in> set (resolved ?il ir)
           then Some (case map_of ?sct i of None \<Rightarrow> 0 | Some p \<Rightarrow> fst p, side_score ?il ir i)
           else map_of ?sct i)"
    using image_loop [OF t(1), of st ir] by (simp_all add: sc_def)
  show "distinct (map fst sc)" by (rule m(1))
  have "dom (map_of sc) = cands"
    by (auto simp: m(2) t(2) cands_def dom_def split: if_splits)
  then show "set (map fst sc) = cands" by (simp add: dom_map_of_conv_image_fst)
  assume i: "i \<in> cands"
  then have ne: "i \<noteq> []" by (auto simp: cands_def dest: resolved_nonempty)
  show "map_of sc i = Some (side_score ?tl tr i, side_score ?il ir i)"
    using i ne by (auto simp: m(2) t(2) cands_def side_score_absent)
qed

lemma combine_keys: "map fst (combine tw iw sc) = map fst sc"
  by (simp add: combine_def comp_def case_prod_beta)

lemma combine_member:
  "(i, f) \<in> set (combine tw iw sc) \<Longrightarrow> \<exists>p. (i, p) \<in> set sc \<and> f = final_score tw iw p"
  by (auto simp: combine_def)

lemma final_score_rule:
  "(t > 0 \<and> m > 0 \<longrightarrow> final_score tw iw (t, m) = tw * t + iw * m)
   \<and> (t > 0 \<and> \<not> m > 0 \<longrightarrow> final_score tw iw (t, m) = t)
   \<and> (\<not> t > 0 \<longrightarrow> final_score tw iw (t, m) = m)"
  by (simp add: final_score_def)

lemma sort_descending_sorted: "sorted_wrt (\<lambda>x y. snd y \<le> snd x) (sort_descending xs)"
proof -
  have "sorted (map (\<lambda>x. - snd x) (sort_key (\<lambda>x. - snd x) xs))" by (rule sorted_sort_key)
  then show ?thesis by (simp add: sort_descending_def sorted_map)
qed

lemma slice_upto_sorted:
  "sorted_wrt P xs \<Longrightarrow> sorted_wrt P (slice_upto k xs)"
  by (simp add: slice_upto_def sorted_wrt_take)

lemma hybrid_scores_unfold:
  assumes "search_text e st q (k * 3) = (Inr tr, st1)"
    and "search_image e st1 q (k * 3) = (Inr ir, st2)"
  shows "hybrid_scores e st q k =
           (Inr (foldl (add_image_score st2) (foldl (add_text_score st2) [] tr) ir), st2)"
  using assms by (simp add: hybrid_scores_def Let_def)

text \<open>On a loaded store whose indices exist the searches return.\<close>

lemma search_returns:
  assumes "is_loaded st" and "text_index st \<noteq> None" and "image_index st \<noteq> None"
  shows "\<exists>tr. search_text e st q k = (Inr tr, st)" and "\<exists>ir. search_image e st q k = (Inr ir, st)"
  using assms
  by (auto simp: search_text_def search_image_def ensure_loaded_def search_index_def
      split: option.splits sum.splits)

text \<open>
  C1: let the two over-fetching searches (for \<open>3k\<close> results) return \<open>tr\<close> and \<open>ir\<close>.
  The candidates of \<open>hybrid_search\<close> are exactly the identities that \<open>tr\<close> or \<open>ir\<close>
  resolve to, each once. The fused score of a candidate is
  \<open>text_weight * text_score + image_weight * image_score\<close> when both its scores are
  above 0, and the raw score of the one side that is above 0 otherwise, where the score
  of a side on which the identity does not appear is 0. The result is the candidates
  sorted by descending fused score and cut to the first \<open>k\<close>.
\<close>

theorem hybrid_search_fusion:
  assumes "search_text e st q (k * 3) = (Inr tr, st1)"
    and "search_image e st1 q (k * 3) = (Inr ir, st2)"
  shows "\<exists>scores. hybrid_scores e st q k = (Inr scores, st2) \<and>
         (let tl = get_image_id_from_text_vector st2;
              il = get_image_id_from_image_vector st2;
              pool = combine tw iw scores;
              out = slice_upto k (sort_descending pool)
          in hybrid_search e st q k tw iw = (Inr out, st2)
             \<and> set (map fst pool) = set (resolved tl tr) \<union> set (resolved il ir)
             \<and> distinct (map fst pool)
             \<and> (\<forall>(i, f) \<in> set pool.
                   (side_score tl tr i > 0 \<and> side_score il ir i > 0 \<longrightarrow>
                      f = tw * side_score tl tr i + iw * side_score il ir i)
                   \<and> (side_score tl tr i > 0 \<and> \<not> side_score il ir i > 0 \<longrightarrow>
                      f = side_score tl tr i)
                   \<and> (\<not> side_score tl tr i > 0 \<and> side_score il ir i > 0 \<longrightarrow>
                      f = side_score il ir i))
             \<and> (0 \<le> k \<longrightarrow> out = take (nat k) (sort_descending pool))
             \<and> set (sort_descending pool) = set pool
             \<and> sorted_wrt (\<lambda>x y. snd y \<le> snd x) (sort_descending pool)
             \<and> sorted_wrt (\<lambda>x y. snd y \<le> snd x) out)"
proof -
  let ?tl = "get_image_id_from_text_vector st2" and ?il = "get_image_id_from_image_vector st2"
  let ?sc = "foldl (add_image_score st2) (foldl (add_text_score st2) [] tr) ir"
  let ?pool = "combine tw iw ?sc"
  let ?out = "slice_upto k (sort_descending ?pool)"
  note hs = hybrid_scores_unfold [OF assms]
  note sl = scores_lookup [where st = st2 and tr = tr and ir = ir]
  have keys: "set (map fst ?pool) = set (resolved ?tl tr) \<union> set (resolved ?il ir)"
    using sl(2) by (simp only: combine_keys)
  have dist: "distinct (map fst ?pool)"
    using sl(1) by (simp only: combine_keys)
  have rule: "\<forall>(i, f) \<in> set ?pool.
                  (side_score ?tl tr i > 0 \<and> side_score ?il ir i > 0 \<longrightarrow>
                     f = tw * side_score ?tl tr i + iw * side_score ?il ir i)
                  \<and> (side_score ?tl tr i > 0 \<and> \<not> side_score ?il ir i > 0 \<longrightarrow>
                     f = side_score ?tl tr i)
                  \<and> (\<not> side_score ?tl tr i > 0 \<and> side_score ?il ir i > 0 \<longrightarrow>
                     f = side_score ?il ir i)"
  proof (clarify)
    fix i f assume "(i, f) \<in> set ?pool"
    then obtain p where p: "(i, p) \<in> set ?sc" and f: "f = final_score tw iw p"
      by (blast dest: combine_member)
    from p have "i \<in> set (map fst ?sc)" by (auto intro: rev_image_eqI)
    then have "i \<in> set (resolved ?tl tr) \<union> set (resolved ?il ir)" using sl(2) by simp
    then have "map_of ?sc i = Some (side_score ?tl tr i, side_score ?il ir i)" by (rule sl(3))
    moreover have "map_of ?sc i = Some p" using p sl(1) by simp
    ultimately have "p = (side_score ?tl tr i, side_score ?il ir i)" by simp
    with f final_score_rule [of "side_score ?tl tr i" "side_score ?il ir i" tw iw]
    show "(side_score ?tl tr i > 0 \<and> side_score ?il ir i > 0 \<longrightarrow>
                     f = tw * side_score ?tl tr i + iw * side_score ?il ir i)
                  \<and> (side_score ?tl tr i > 0 \<and> \<not> side_score ?il ir i > 0 \<longrightarrow>
                     f = side_score ?tl tr i)
                  \<and> (\<not> side_score ?tl tr i > 0 \<and> side_score ?il ir i > 0 \<longrightarrow>
                     f = side_score ?il ir i)"
      by simp
  qed
  have out: "hybrid_search e st q k tw iw = (Inr ?out, st2)"
    by (simp add: hybrid_search_def hs Let_def)
  have take: "0 \<le> k \<longrightarrow> ?out = take (nat k) (sort_descending ?pool)"
    by (simp add: slice_upto_def)
  have perm: "set (sort_descending ?pool) = set ?pool"
    by (simp add: sort_descending_def)
  have srt: "sorted_wrt (\<lambda>x y. snd y \<le> snd x) (sort_descending ?pool)"
    by (rule sort_descending_sorted)
  have srt_out: "sorted_wrt (\<lambda>x y. snd y \<le> snd x) ?out"
    by (rule slice_upto_sorted [OF srt])
  from keys dist rule out take perm srt srt_out
  have "let tl = ?tl; il = ?il; pool = ?pool; out = slice_upto k (sort_descending pool)
          in hybrid_search e st q k tw iw = (Inr out, st2)
             \<and> set (map fst pool) = set (resolved tl tr) \<union> set (resolved il ir)
             \<and> distinct (map fst pool)
             \<and> (\<forall>(i, f) \<in> set pool.
                   (side_score tl tr i > 0 \<and> side_score il ir i > 0 \<longrightarrow>
                      f = tw * side_score tl tr i + iw * side_score il ir i)
                   \<and> (side_score tl tr i > 0 \<and> \<not> side_score il ir i > 0 \<longrightarrow>
                      f = side_score tl tr i)
                   \<and> (\<not> side_score tl tr i > 0 \<and> side_score il ir i > 0 \<longrightarrow>
                      f = side_score il ir i))
             \<and> (0 \<le> k \<longrightarrow> out = take (nat k) (sort_descending pool))
             \<and> set (sort_descending pool) = set pool
             \<and> sorted_wrt (\<lambda>x y. snd y \<le> snd x) (sort_descending pool)
             \<and> sorted_wrt (\<lambda>x y. snd y \<le> snd x) out"
    unfolding Let_def by blast
  with hs show ?thesis by blast
qed

text \<open>
  The example of the specification, with the weights 0.7 and 0.3: A has the text score
  0.90 and the image score 0.50 and fuses to 0.78; B has the text score 0.95 and no
  image vector and keeps 0.95; the ranking is B, A.
\<close>

lemmas fusion_example_defs =
  fusion_example_store_def example_store_def example_env_def create_indices_def FAISSStore_def
  IndexFlatIP_def search_text_def search_image_def ensure_loaded_def search_index_def
  reshape_row_def ntotal_def flat_ip_search_def inner_product_def collect_results_def upt_rec

theorem hybrid_search_fusion_witness:
  "search_text example_env fusion_example_store [1, 0] (10 * 3) =
     (Inr [\<lparr>vector_id = 1, score = 0.95\<rparr>, \<lparr>vector_id = 0, score = 0.90\<rparr>],
      fusion_example_store)
   \<and> search_image example_env fusion_example_store [1, 0] (10 * 3) =
     (Inr [\<lparr>vector_id = 0, score = 0.50\<rparr>], fusion_example_store)
   \<and> side_score (get_image_id_from_text_vector fusion_example_store)
        [\<lparr>vector_id = 1, score = 0.95\<rparr>, \<lparr>vector_id = 0, score = 0.90\<rparr>] ''A'' = 0.90
   \<and> side_score (get_image_id_from_image_vector fusion_example_store)
        [\<lparr>vector_id = 0, score = 0.50\<rparr>] ''A'' = 0.50
   \<and> side_score (get_image_id_from_text_vector fusion_example_store)
        [\<lparr>vector_id = 1, score = 0.95\<rparr>, \<lparr>vector_id = 0, score = 0.90\<rparr>] ''B'' = 0.95
   \<and> side_score (get_image_id_from_image_vector fusion_example_store)
        [\<lparr>vector_id = 0, score = 0.50\<rparr>] ''B'' = 0
   \<and> hybrid_search example_env fusion_example_store [1, 0] 10 0.7 0.3 =
       (Inr [(''B'', 0.95), (''A'', 0.78)], fusion_example_store)"
proof -
  have tr: "search_text example_env fusion_example_store [1, 0] (10 * 3) =
     (Inr [\<lparr>vector_id = 1, score = 0.95\<rparr>, \<lparr>vector_id = 0, score = 0.90\<rparr>],
      fusion_example_store)"
    by (simp add: fusion_example_defs)
  have ir: "search_image example_env fusion_example_store [1, 0] (10 * 3) =
     (Inr [\<lparr>vector_id = 0, score = 0.50\<rparr>], fusion_example_store)"
    by (simp add: fusion_example_defs)
  have scores: "hybrid_scores example_env fusion_example_store [1, 0] 10 =
      (Inr [(''B'', (0.95, 0)), (''A'', (0.90, 0.50))], fusion_example_store)"
    by (simp add: hybrid_scores_def tr [simplified] ir [simplified])
       (simp add: add_text_score_def add_image_score_def
        get_image_id_from_text_vector_def get_image_id_from_image_vector_def dict_get_def
        ensure_entry_def dict_contains_def dict_set_def fusion_example_store_def)
  have sides: "side_score (get_image_id_from_text_vector fusion_example_store)
        [\<lparr>vector_id = 1, score = 0.95\<rparr>, \<lparr>vector_id = 0, score = 0.90\<rparr>] ''A'' = 0.90
   \<and> side_score (get_image_id_from_image_vector fusion_example_store)
        [\<lparr>vector_id = 0, score = 0.50\<rparr>] ''A'' = 0.50
   \<and> side_score (get_image_id_from_text_vector fusion_example_store)
        [\<lparr>vector_id = 1, score = 0.95\<rparr>, \<lparr>vector_id = 0, score = 0.90\<rparr>] ''B'' = 0.95
   \<and> side_score (get_image_id_from_image_vector fusion_example_store)
        [\<lparr>vector_id = 0, score = 0.50\<rparr>] ''B'' = 0"
    by (simp add: side_score_def get_image_id_from_text_vector_def
        get_image_id_from_image_vector_def dict_get_def fusion_example_store_def)
  from hybrid_search_fusion [OF tr ir, of "0.7" "0.3"]
  have "hybrid_search example_env fusion_example_store [1, 0] 10 0.7 0.3 =
      (Inr (slice_upto 10 (sort_descending
         (combine 0.7 0.3 [(''B'', (0.95, 0)), (''A'', (0.90, 0.50))]))), fusion_example_store)"
    unfolding Let_def scores by blast
  then have "hybrid_search example_env fusion_example_store [1, 0] 10 0.7 0.3 =
       (Inr [(''B'', 0.95), (''A'', 0.78)], fusion_example_store)"
    by (simp add: slice_upto_def combine_def final_score_def sort_descending_def)
  with tr ir sides show ?thesis by simp
qed

end
